theory Spec2Isabelle
  imports Main
begin

section \<open>Values, paths and problems shared by both modules\<close>

text \<open>
  A Python \<open>str\<close> is a sequence of Unicode code points, so it is modelled as a list of
  code points (\<open>nat\<close>): the non-ASCII characters tested by \<open>sanitize_filename\<close> are
  single elements, as they are for Python's iteration over a \<open>str\<close>.
  Identifiers, dictionary keys and parameter names are ASCII and are kept as \<open>string\<close>.
\<close>

type_synonym pystr = "nat list"

text \<open>A keyword argument with a default value: either left out by the caller or passed.\<close>

datatype 'a kwarg = Omitted | Passed 'a

fun kwarg_value :: "'a \<Rightarrow> 'a kwarg \<Rightarrow> 'a" where
  "kwarg_value d Omitted = d"
| "kwarg_value d (Passed v) = v"

text \<open>
  \<open>Path\<close> (pims.files.file) is not among the sources. A path is identified by the file
  path it was built from; what the file system answers for it (\<open>exists()\<close>,
  \<open>is_single()\<close>) is a parameter of the model.
\<close>

datatype Path = Path string

record files =
  from_filepath :: "string \<Rightarrow> Path"
  exists :: "Path \<Rightarrow> bool"
  is_single :: "Path \<Rightarrow> bool"

text \<open>
  Dictionaries are association lists from Python keys to Python values. A key of a
  Python dictionary is any hashable value: the keys that occur here are strings and
  tuples of keys (a tuple is a different key from each of its components).
  The values are the few kinds of Python value that the request carries; numbers are
  handed unchanged to the functions that are not among the sources, so integers stand
  for all of them.
\<close>

datatype pykey = KStr string | KTuple "pykey list"

datatype TierIndexType = LEVEL | ZOOM

datatype AnnotationStyleMode = DRAWING | MASK

datatype color = RED | WHITE | RGB nat nat nat

datatype reduction = ADD | Reduction string

datatype pyval =
    VNone
  | VBool bool
  | VInt int
  | VStr string
  | VTier TierIndexType
  | VMode AnnotationStyleMode
  | VColor color
  | VList "pyval list"
  | VDict "(pykey \<times> pyval) list"

type_synonym pydict = "(pykey \<times> pyval) list"

text \<open>
  The problems raised by the code and by the functions it calls. The first two are the
  exceptions of pims.api.exceptions named in the sources (the second is raised with the
  path in \<open>imagepath_parameter\<close> and without one for a missing representation); the next
  ones are the validation failures of the specification's taxonomy, raised by functions
  that are not among the sources; the last ones are Python's own run-time errors.
\<close>

datatype problem =
    FilepathNotFoundProblem Path
  | NoAppropriateRepresentationProblem "Path option"
  | OutOfBoundsRegion
  | InvalidTileAddress
  | ReductionRequired string
  | ArraySizeMismatch string
  | UnsetParameter string
  | InvalidZoomOrLevel
  | UnsupportedOutputFormat
  | InternalError string
  | KeyError pykey
  | AttributeError string
  | TypeError string

text \<open>Sequencing of steps that may raise: the first problem raised ends the computation.\<close>

fun attempt :: "problem + 'a \<Rightarrow> ('a \<Rightarrow> problem + 'b) \<Rightarrow> problem + 'b" where
  "attempt (Inl e) f = Inl e"
| "attempt (Inr x) f = f x"

section \<open>pims/api/utils/parameter.py\<close>

definition filepath_parameter :: "files \<Rightarrow> string \<Rightarrow> problem + Path" where
  "filepath_parameter fs filepath =
     (let path = from_filepath fs filepath in
      if \<not> exists fs path then Inl (FilepathNotFoundProblem path)
      else Inr path)"

definition imagepath_parameter :: "files \<Rightarrow> string \<Rightarrow> problem + Path" where
  "imagepath_parameter fs filepath =
     (let path = from_filepath fs filepath in
      if \<not> exists fs path then Inl (FilepathNotFoundProblem path)
      else if \<not> is_single fs path then Inl (NoAppropriateRepresentationProblem (Some path))
      else Inr path)"

text \<open>
  The characters of \<open>bad_chars\<close>, in the order of the source, as code points:
  space, parentheses, plus, asterisk, slash, at sign, single and double quote, dollar,
  euro (U+20AC), pound (U+00A3), degree (U+00B0), backtick, square brackets, hash,
  question mark.
\<close>

definition bad_chars :: "nat list" where
  "bad_chars = [32, 40, 41, 43, 42, 47, 64, 39, 34, 36, 8364, 163, 176, 96, 91, 93, 35, 63]"

text \<open>
  \<open>_sanitize_filename\<close> is the sanitizer of the external library pathvalidate; it is
  the parameter \<open>lib\<close>, called with the file name and the replacement text. The default
  of \<open>replacement\<close> is the one-character string of the hyphen-minus (code point 45).
\<close>

definition sanitize_filename ::
  "(pystr \<Rightarrow> pystr \<Rightarrow> pystr) \<Rightarrow> pystr \<Rightarrow> pystr kwarg \<Rightarrow> pystr" where
  "sanitize_filename lib filename replacement_arg =
     (let replacement = kwarg_value [45] replacement_arg;
          sanitized = lib filename replacement
      in concat (map (\<lambda>c. if c \<notin> set bad_chars then [c] else replacement) sanitized))"

section \<open>pims/api/window.py: values and collaborators\<close>

text \<open>Python's \<open>k in d\<close> and \<open>d[k]\<close> on a dictionary, and the truth value of a value.\<close>

definition contains :: "pykey \<Rightarrow> pydict \<Rightarrow> bool" where
  "contains k d = (k \<in> set (map fst d))"

definition getitem :: "pydict \<Rightarrow> pykey \<Rightarrow> problem + pyval" where
  "getitem d k = (case map_of d k of None \<Rightarrow> Inl (KeyError k) | Some v \<Rightarrow> Inr v)"

fun truthy :: "pyval \<Rightarrow> bool" where
  "truthy VNone = False"
| "truthy (VBool b) = b"
| "truthy (VInt i) = (i \<noteq> 0)"
| "truthy (VStr s) = (s \<noteq> [])"
| "truthy (VList xs) = (xs \<noteq> [])"
| "truthy (VDict d) = (d \<noteq> [])"
| "truthy v = True"

text \<open>
  \<open>Region\<close> (pims.processing.region) is not among the sources; the specification gives it
  as an axis-aligned rectangle \<open>(top, left, width, height)\<close> in pixel units.
  The parameter \<open>region\<close> of \<open>_show_window\<close> is either such an object or the raw
  dictionary of the request.
\<close>

datatype Region = Region int int int int

datatype region_arg = RegionObj Region | RegionDict pydict

text \<open>
  The functions of the image, of its pyramid and of pims.api.utils.input_parameter and
  output_parameter that \<open>_show_window\<close> calls on the way to the output size. None of them
  is among the sources: each is a parameter, and each may raise. \<open>max_zoom\<close> stands for
  \<open>in_image.pyramid.max_zoom\<close>; the functions that take the pyramid in the source take
  the image here.
\<close>

record ('img, 'tier) geometry =
  max_zoom :: "'img \<Rightarrow> int"
  parse_region ::
    "'img \<Rightarrow> pyval \<Rightarrow> pyval \<Rightarrow> pyval \<Rightarrow> pyval \<Rightarrow> pyval \<Rightarrow> pyval \<Rightarrow> bool \<Rightarrow> problem + Region"
  check_tileindex_validity :: "'img \<Rightarrow> pyval \<Rightarrow> pyval \<Rightarrow> pyval \<Rightarrow> problem + unit"
  check_tilecoord_validity :: "'img \<Rightarrow> pyval \<Rightarrow> pyval \<Rightarrow> pyval \<Rightarrow> pyval \<Rightarrow> problem + unit"
  get_tier_at :: "'img \<Rightarrow> pyval \<Rightarrow> pyval \<Rightarrow> problem + 'tier"
  get_ti_tile :: "'tier \<Rightarrow> pyval \<Rightarrow> problem + Region"
  get_txty_tile :: "'tier \<Rightarrow> pyval \<Rightarrow> pyval \<Rightarrow> problem + Region"
  get_output_format :: "pyval \<Rightarrow> pyval \<Rightarrow> problem + (pyval \<times> pyval)"
  check_zoom_validity :: "'img \<Rightarrow> pyval \<Rightarrow> problem + unit"
  check_level_validity :: "'img \<Rightarrow> pyval \<Rightarrow> problem + unit"
  get_window_output_dimensions ::
    "'img \<Rightarrow> region_arg \<Rightarrow> pyval \<Rightarrow> pyval \<Rightarrow> pyval \<Rightarrow> pyval \<Rightarrow> pyval \<Rightarrow> problem + (int \<times> int)"
  safeguard_output_dimensions :: "pyval \<Rightarrow> pyval \<Rightarrow> int \<Rightarrow> int \<Rightarrow> problem + (int \<times> int)"

section \<open>pims/api/window.py: the region of the request (lines 107 to 143)\<close>

text \<open>
  The block returns the value of the variable \<open>region\<close> after it: the \<open>Region\<close> of the
  branch taken, or the raw dictionary itself when no branch is taken (the chain of
  \<open>if\<close>/\<open>elif\<close> has no \<open>else\<close>). The third test is the membership of the tuple
  \<open>('tx', 'ty')\<close> among the keys of the dictionary, as the source writes it.
\<close>

definition reference_tier ::
  "('img, 'tier) geometry \<Rightarrow> 'img \<Rightarrow> pyval \<Rightarrow> pyval \<Rightarrow> pyval" where
  "reference_tier geo in_image tier_index_type reference_tier_index =
     (if reference_tier_index = VNone then
        (if tier_index_type = VTier LEVEL then VInt 0 else VInt (max_zoom geo in_image))
      else reference_tier_index)"

definition resolve_region ::
  "('img, 'tier) geometry \<Rightarrow> 'img \<Rightarrow> region_arg \<Rightarrow> problem + region_arg" where
  "resolve_region geo in_image region =
     (case region of
        RegionObj r \<Rightarrow> Inr (RegionObj r)
      | RegionDict d \<Rightarrow>
          attempt (getitem d (KStr ''tier_index_type'')) (\<lambda>tier_index_type.
          attempt (getitem d (KStr ''reference_tier_index'')) (\<lambda>rti.
          let reference_tier_index = reference_tier geo in_image tier_index_type rti in
          if contains (KStr ''top'') d then
            attempt (getitem d (KStr ''top'')) (\<lambda>t.
            attempt (getitem d (KStr ''left'')) (\<lambda>l.
            attempt (getitem d (KStr ''width'')) (\<lambda>w.
            attempt (getitem d (KStr ''height'')) (\<lambda>h.
            attempt (parse_region geo in_image t l w h
                       reference_tier_index tier_index_type False) (\<lambda>r.
            Inr (RegionObj r))))))
          else if contains (KStr ''ti'') d then
            attempt (getitem d (KStr ''ti'')) (\<lambda>ti.
            attempt (check_tileindex_validity geo in_image ti
                       reference_tier_index tier_index_type) (\<lambda>_.
            attempt (get_tier_at geo in_image reference_tier_index tier_index_type) (\<lambda>tier.
            attempt (get_ti_tile geo tier ti) (\<lambda>r.
            Inr (RegionObj r)))))
          else if contains (KTuple [KStr ''tx'', KStr ''ty'']) d then
            attempt (getitem d (KStr ''tx'')) (\<lambda>tx.
            attempt (getitem d (KStr ''ty'')) (\<lambda>ty.
            attempt (check_tilecoord_validity geo in_image tx ty
                       reference_tier_index tier_index_type) (\<lambda>_.
            attempt (get_tier_at geo in_image reference_tier_index tier_index_type) (\<lambda>tier.
            attempt (get_txty_tile geo tier tx ty) (\<lambda>r.
            Inr (RegionObj r))))))
          else Inr (RegionDict d))))"

text \<open>
  A raw region of a request is the dump of one of the three request models, so its keys
  are strings.
\<close>

definition string_keys :: "pydict \<Rightarrow> bool" where
  "string_keys d = list_all (\<lambda>k. case k of KStr _ \<Rightarrow> True | KTuple _ \<Rightarrow> False) (map fst d)"

section \<open>pims/api/window.py: dimension indexes (lines 152 to 161)\<close>

text \<open>
  Modelled from the spec: \<open>ensure_list\<close> (pims.utils.iterables) is missing from the
  sources. The parameters are "per-channel scalar/array parameters": an absent value gives
  the empty array, an array is itself, a scalar is the array of that one value.
\<close>

definition ensure_list :: "pyval \<Rightarrow> pyval list" where
  "ensure_list v = (case v of VNone \<Rightarrow> [] | VList xs \<Rightarrow> xs | _ \<Rightarrow> [v])"

text \<open>
  Modelled from the spec: \<open>check_reduction_validity\<close> (pims.api.utils.input_parameter) is
  missing from the sources. Section 4.3: "if the resolved index sequence has length > 1, a
  ReductionFunction for that axis must be present, else the call fails with a
  reduction-required error; length \<le> 1 requires no reduction function". The reduction is
  Python's \<open>None\<close> or a reduction function.
\<close>

definition check_reduction_validity ::
  "int list \<Rightarrow> reduction option \<Rightarrow> string \<Rightarrow> problem + unit" where
  "check_reduction_validity planes reduction name =
     (if length planes > 1 \<and> reduction = None then Inl (ReductionRequired name)
      else Inr ())"

text \<open>
  The resolvers of the three selections (pims.api.utils.input_parameter) are not among the
  sources: parameters, which may raise.
\<close>

record 'img dimensions =
  get_channel_indexes :: "'img \<Rightarrow> pyval list \<Rightarrow> problem + int list"
  get_zslice_indexes :: "'img \<Rightarrow> pyval list \<Rightarrow> problem + int list"
  get_timepoint_indexes :: "'img \<Rightarrow> pyval list \<Rightarrow> problem + int list"

text \<open>
  The three reductions are keyword parameters of \<open>_show_window\<close> (line 102) with the
  defaults \<open>ChannelReduction.ADD\<close>, \<open>None\<close> and \<open>None\<close>.
\<close>

definition resolve_dimensions ::
  "'img dimensions \<Rightarrow> 'img \<Rightarrow> pyval \<Rightarrow> pyval \<Rightarrow> pyval \<Rightarrow>
   reduction option kwarg \<Rightarrow> reduction option kwarg \<Rightarrow> reduction option kwarg \<Rightarrow>
   problem + (int list \<times> int list \<times> int list)" where
  "resolve_dimensions dims in_image channels z_slices timepoints c_arg z_arg t_arg =
     (let c_reduction = kwarg_value (Some ADD) c_arg;
          z_reduction = kwarg_value None z_arg;
          t_reduction = kwarg_value None t_arg;
          channels = ensure_list channels;
          z_slices = ensure_list z_slices;
          timepoints = ensure_list timepoints
      in
      attempt (get_channel_indexes dims in_image channels) (\<lambda>channels.
      attempt (check_reduction_validity channels c_reduction ''channels'') (\<lambda>_.
      attempt (get_zslice_indexes dims in_image z_slices) (\<lambda>z_slices.
      attempt (check_reduction_validity z_slices z_reduction ''z_slices'') (\<lambda>_.
      attempt (get_timepoint_indexes dims in_image timepoints) (\<lambda>timepoints.
      attempt (check_reduction_validity timepoints t_reduction ''timepoints'') (\<lambda>_.
      Inr (channels, z_slices, timepoints))))))))"

section \<open>pims/api/window.py: channel parameters (lines 163 to 188)\<close>

text \<open>
  Modelled from the spec: \<open>check_array_size_parameters\<close> (pims.utils.iterables) is
  missing from the sources. Section 4.4: "validate each array's length is in \<open>{0, 1, n}\<close>
  [...] any other length fails with an array-size-mismatch error naming the offending
  parameter"; section 9: the arrays are found by name among the local variables.
  The set of allowed lengths and the flag \<open>nullable\<close> are the arguments that
  \<open>_show_window\<close> passes. The names are checked in order and the first offending one is
  reported.
\<close>

fun check_array_size_parameters ::
  "string list \<Rightarrow> (string \<times> pyval) list \<Rightarrow> nat list \<Rightarrow> bool \<Rightarrow> problem + unit" where
  "check_array_size_parameters [] parameters allowed nullable = Inr ()"
| "check_array_size_parameters (name # names) parameters allowed nullable =
     (case map_of parameters name of
        Some (VList xs) \<Rightarrow>
          if length xs \<in> set allowed
          then check_array_size_parameters names parameters allowed nullable
          else Inl (ArraySizeMismatch name)
      | Some VNone \<Rightarrow>
          if nullable then check_array_size_parameters names parameters allowed nullable
          else Inl (UnsetParameter name)
      | None \<Rightarrow>
          if nullable then check_array_size_parameters names parameters allowed nullable
          else Inl (UnsetParameter name)
      | Some _ \<Rightarrow> Inl (TypeError name))"

text \<open>
  Modelled from the spec: \<open>parse_intensity_bounds\<close>, \<open>parse_colormap_ids\<close> and
  \<open>parse_gammas\<close> (pims.api.utils.processing_parameter) are missing from the sources.
  Section 4.4: "length 0 yields that parameter's type-specific default for every channel,
  length 1 broadcasts the single value to all \<open>n\<close> channels, length \<open>n\<close> is used as-is".
  The defaults are parameters (they may depend on the image and on the channel).
\<close>

definition broadcast :: "(int \<Rightarrow> pyval) \<Rightarrow> int list \<Rightarrow> pyval list \<Rightarrow> pyval list" where
  "broadcast dflt channels xs =
     (if length xs = 0 then map dflt channels
      else if length xs = 1 then map (\<lambda>_. hd xs) channels
      else xs)"

record 'img processing =
  default_min_intensity :: "'img \<Rightarrow> int \<Rightarrow> pyval"
  default_max_intensity :: "'img \<Rightarrow> int \<Rightarrow> pyval"
  default_colormap :: "'img \<Rightarrow> int \<Rightarrow> pyval"
  default_gamma :: "pyval"
  useless_channel :: "int \<Rightarrow> pyval \<Rightarrow> pyval \<Rightarrow> pyval \<Rightarrow> pyval \<Rightarrow> bool"
  parse_filter_ids :: "pyval list \<Rightarrow> problem + pyval list"
  parse_bitdepth :: "'img \<Rightarrow> pyval \<Rightarrow> problem + pyval"

definition parse_intensity_bounds ::
  "'img processing \<Rightarrow> 'img \<Rightarrow> int list \<Rightarrow> int list \<Rightarrow> int list \<Rightarrow> pyval list \<Rightarrow> pyval list
   \<Rightarrow> pyval list \<times> pyval list" where
  "parse_intensity_bounds proc in_image channels z_slices timepoints
       min_intensities max_intensities =
     (broadcast (default_min_intensity proc in_image) channels min_intensities,
      broadcast (default_max_intensity proc in_image) channels max_intensities)"

definition parse_colormap_ids ::
  "'img processing \<Rightarrow> 'img \<Rightarrow> pyval list \<Rightarrow> int list \<Rightarrow> pyval list" where
  "parse_colormap_ids proc in_image colormaps channels =
     broadcast (default_colormap proc in_image) channels colormaps"

definition parse_gammas :: "'img processing \<Rightarrow> int list \<Rightarrow> pyval list \<Rightarrow> pyval list" where
  "parse_gammas proc channels gammas = broadcast (\<lambda>_. default_gamma proc) channels gammas"

text \<open>
  Modelled from the spec: \<open>remove_useless_channels\<close>
  (pims.api.utils.processing_parameter) is missing from the sources. Section 4.4: "channels
  whose effective contribution is a no-op [...] may be dropped from the working set, and
  all parallel arrays (intensities, colormaps, gammas) are pruned in lockstep to keep
  indices aligned". What makes a channel a no-op is the parameter \<open>useless\<close>, asked of the
  entries of one position; the five arrays are walked together.
\<close>

fun remove_useless_channels ::
  "(int \<Rightarrow> pyval \<Rightarrow> pyval \<Rightarrow> pyval \<Rightarrow> pyval \<Rightarrow> bool) \<Rightarrow>
   int list \<Rightarrow> pyval list \<Rightarrow> pyval list \<Rightarrow> pyval list \<Rightarrow> pyval list \<Rightarrow>
   int list \<times> pyval list \<times> pyval list \<times> pyval list \<times> pyval list" where
  "remove_useless_channels useless (c # cs) (lo # los) (hi # his) (m # ms) (g # gs) =
     (case remove_useless_channels useless cs los his ms gs of
        (cs', los', his', ms', gs') \<Rightarrow>
          if useless c lo hi m g then (cs', los', his', ms', gs')
          else (c # cs', lo # los', hi # his', m # ms', g # gs'))"
| "remove_useless_channels useless cs los his ms gs = ([], [], [], [], [])"

text \<open>
  The block of lines 163 to 188. \<open>colormaps\<close> is a keyword parameter with the default
  \<open>None\<close>. The first check allows the lengths 0, 1 and the number of resolved channels for
  the four per-channel arrays; the second one, after the pruning, allows the lengths 0 and
  1 for \<open>filters\<close>.
\<close>

definition channel_parameters ::
  "'img processing \<Rightarrow> 'img \<Rightarrow> int list \<Rightarrow> int list \<Rightarrow> int list \<Rightarrow>
   pyval \<Rightarrow> pyval \<Rightarrow> pyval kwarg \<Rightarrow> pyval \<Rightarrow> pyval \<Rightarrow>
   problem + (int list \<times> pyval list \<times> pyval list \<times> pyval list \<times> pyval list \<times> pyval list)" where
  "channel_parameters proc in_image channels z_slices timepoints
       min_arg max_arg colormaps_arg filters_arg gammas_arg =
     (let min_intensities = ensure_list min_arg;
          max_intensities = ensure_list max_arg;
          colormaps = ensure_list (kwarg_value VNone colormaps_arg);
          filters = ensure_list filters_arg;
          gammas = ensure_list gammas_arg;
          array_locals = [(''min_intensities'', VList min_intensities),
                          (''max_intensities'', VList max_intensities),
                          (''colormaps'', VList colormaps),
                          (''filters'', VList filters),
                          (''gammas'', VList gammas)]
      in
      attempt (check_array_size_parameters
                 [''min_intensities'', ''max_intensities'', ''colormaps'', ''gammas'']
                 array_locals [0, 1, length channels] False) (\<lambda>_.
      case parse_intensity_bounds proc in_image channels z_slices timepoints
             min_intensities max_intensities of
        (min_intensities, max_intensities) \<Rightarrow>
      let colormaps = parse_colormap_ids proc in_image colormaps channels;
          gammas = parse_gammas proc channels gammas
      in
      case remove_useless_channels (useless_channel proc)
             channels min_intensities max_intensities colormaps gammas of
        (channels, min_intensities, max_intensities, colormaps, gammas) \<Rightarrow>
      attempt (check_array_size_parameters [''filters'']
                 [(''min_intensities'', VList min_intensities),
                  (''max_intensities'', VList max_intensities),
                  (''colormaps'', VList colormaps),
                  (''filters'', VList filters),
                  (''gammas'', VList gammas)] [0, 1] False) (\<lambda>_.
      attempt (parse_filter_ids proc filters) (\<lambda>filters.
      Inr (channels, min_intensities, max_intensities, colormaps, gammas, filters)))))"

section \<open>pims/api/window.py: annotations and the response (lines 190 to 233)\<close>

text \<open>
  The parameter \<open>annotations\<close> is either the raw value of the request (\<open>None\<close>, a
  dictionary or a list of dictionaries) or an object of the class \<open>ParsedAnnotations\<close>.
  That class, the parser and the affine matrix (pims.processing.annotations,
  pims.api.utils.annotation_parameter) are not among the sources: parameters.
  \<open>annotations_bool\<close> is the truth value Python gives to a \<open>ParsedAnnotations\<close> object,
  \<open>annotations_region\<close> its attribute \<open>region\<close>, \<open>im_height\<close> the attribute \<open>height\<close> of
  the image.
\<close>

datatype 'anns annotations_arg = RawAnnotations pyval | ParsedAnnotations 'anns

record ('img, 'anns, 'aff) annotation_api =
  parse_annotations ::
    "pyval list \<Rightarrow> string list \<Rightarrow> pydict \<Rightarrow> pyval \<Rightarrow> pyval \<Rightarrow> int \<Rightarrow> problem + 'anns"
  annotations_bool :: "'anns \<Rightarrow> bool"
  annotations_region :: "'anns \<Rightarrow> Region"
  annotation_crop_affine_matrix :: "Region \<Rightarrow> region_arg \<Rightarrow> int \<Rightarrow> int \<Rightarrow> problem + 'aff"
  im_height :: "'img \<Rightarrow> int"

record headers =
  accept :: pyval
  safe_mode :: pyval
  annot_origin :: pyval

record config =
  output_size_limit :: pyval

definition annotations_truthy ::
  "('img, 'anns, 'aff) annotation_api \<Rightarrow> 'anns annotations_arg \<Rightarrow> bool" where
  "annotations_truthy api annotations =
     (case annotations of
        RawAnnotations v \<Rightarrow> truthy v
      | ParsedAnnotations p \<Rightarrow> annotations_bool api p)"

text \<open>\<open>annotation_style[key]\<close>: the style is a dictionary when it is not \<open>None\<close>.\<close>

definition subscript :: "pyval \<Rightarrow> pykey \<Rightarrow> problem + pyval" where
  "subscript v k = (case v of VDict d \<Rightarrow> getitem d k | _ \<Rightarrow> Inl (TypeError ''subscript''))"

text \<open>Lines 193 to 200: the fields to ignore, the defaults and the point envelope length.\<close>

definition style_defaults :: "pyval \<Rightarrow> problem + (string list \<times> pydict \<times> pyval)" where
  "style_defaults annotation_style =
     attempt (subscript annotation_style (KStr ''mode'')) (\<lambda>mode.
     if mode = VMode DRAWING then
       attempt (subscript annotation_style (KStr ''point_envelope_length''))
         (\<lambda>point_envelope_length.
       Inr ([''fill_color''],
            [(KStr ''stroke_color'', VColor RED), (KStr ''stroke_width'', VInt 1)],
            point_envelope_length))
     else
       Inr ([''stroke_width'', ''stroke_color''],
            [(KStr ''fill_color'', VColor WHITE)],
            VNone))"

text \<open>Lines 192 to 206: the annotations after the parsing step.\<close>

definition prepare_annotations ::
  "('img, 'anns, 'aff) annotation_api \<Rightarrow> 'img \<Rightarrow> 'anns annotations_arg \<Rightarrow> pyval \<Rightarrow> headers
   \<Rightarrow> problem + 'anns annotations_arg" where
  "prepare_annotations api in_image annotations annotation_style hdrs =
     (case annotations of
        RawAnnotations v \<Rightarrow>
          if truthy v \<and> truthy annotation_style then
            attempt (style_defaults annotation_style)
              (\<lambda>(ignore_fields, default_fields, point_envelope_length).
            attempt (parse_annotations api (ensure_list v) ignore_fields default_fields
                       point_envelope_length (annot_origin hdrs) (im_height api in_image))
              (\<lambda>parsed.
            Inr (ParsedAnnotations parsed)))
          else Inr (RawAnnotations v)
      | ParsedAnnotations p \<Rightarrow> Inr (ParsedAnnotations p))"

text \<open>
  Lines 208 to 210. Reading the attribute \<open>region\<close> of annotations that are still raw (a
  list or a dictionary) is Python's \<open>AttributeError\<close>.
\<close>

definition crop_affine ::
  "('img, 'anns, 'aff) annotation_api \<Rightarrow> 'anns annotations_arg \<Rightarrow> region_arg \<Rightarrow> int \<times> int
   \<Rightarrow> problem + 'aff option" where
  "crop_affine api annotations region out_size =
     (if annotations_truthy api annotations then
        (case annotations of
           ParsedAnnotations p \<Rightarrow>
             attempt (annotation_crop_affine_matrix api (annotations_region api p) region
                        (fst out_size) (snd out_size)) (\<lambda>affine.
             Inr (Some affine))
         | RawAnnotations v \<Rightarrow> Inl (AttributeError ''region''))
      else Inr None)"

text \<open>
  The two response classes (pims.processing.image_response) are not among the sources; a
  response object is the constructor applied to its arguments, in the order of the calls
  of lines 214 to 228.
\<close>

datatype ('img, 'anns, 'aff) image_response =
    MaskResponse 'img "'anns annotations_arg" "'aff option" int int pyval pyval
  | WindowResponse 'img "int list" "int list" "int list"
      region_arg pyval int int
      "reduction option" "reduction option" "reduction option"
      "pyval list" "pyval list" "pyval list"
      "pyval list" "pyval list" bool
      pyval pyval pyval
      "'anns annotations_arg" "'aff option" pyval

fun is_mask :: "('img, 'anns, 'aff) image_response \<Rightarrow> bool" where
  "is_mask (MaskResponse in_image annotations affine w h bitdepth fmt) = True"
| "is_mask _ = False"

text \<open>The values that lines 104 to 190 have computed and that the response needs.\<close>

record 'img resolved =
  r_in_image :: 'img
  r_channels :: "int list"
  r_z_slices :: "int list"
  r_timepoints :: "int list"
  r_region :: region_arg
  r_out_format :: pyval
  r_out_width :: int
  r_out_height :: int
  r_c_reduction :: "reduction option"
  r_z_reduction :: "reduction option"
  r_t_reduction :: "reduction option"
  r_gammas :: "pyval list"
  r_filters :: "pyval list"
  r_colormaps :: "pyval list"
  r_min_intensities :: "pyval list"
  r_max_intensities :: "pyval list"
  r_out_bitdepth :: pyval
  r_threshold :: pyval
  r_colorspace :: pyval

definition mask_response ::
  "'img resolved \<Rightarrow> 'anns annotations_arg \<Rightarrow> 'aff option \<Rightarrow> ('img, 'anns, 'aff) image_response"
  where
  "mask_response r annotations affine =
     MaskResponse (r_in_image r) annotations affine
       (r_out_width r) (r_out_height r) (r_out_bitdepth r) (r_out_format r)"

definition window_response ::
  "'img resolved \<Rightarrow> 'anns annotations_arg \<Rightarrow> 'aff option \<Rightarrow> pyval
   \<Rightarrow> ('img, 'anns, 'aff) image_response" where
  "window_response r annotations affine annotation_style =
     WindowResponse (r_in_image r) (r_channels r) (r_z_slices r) (r_timepoints r)
       (r_region r) (r_out_format r) (r_out_width r) (r_out_height r)
       (r_c_reduction r) (r_z_reduction r) (r_t_reduction r)
       (r_gammas r) (r_filters r) (r_colormaps r)
       (r_min_intensities r) (r_max_intensities r) False
       (r_out_bitdepth r) (r_threshold r) (r_colorspace r)
       annotations affine annotation_style"

text \<open>Lines 212 to 228: the choice between the two responses.\<close>

definition make_window ::
  "('img, 'anns, 'aff) annotation_api \<Rightarrow> 'img resolved \<Rightarrow> 'anns annotations_arg \<Rightarrow>
   'aff option \<Rightarrow> pyval \<Rightarrow> problem + ('img, 'anns, 'aff) image_response" where
  "make_window api r annotations affine annotation_style =
     (if annotations_truthy api annotations \<and> truthy annotation_style then
        attempt (subscript annotation_style (KStr ''mode'')) (\<lambda>mode.
        if mode = VMode MASK then Inr (mask_response r annotations affine)
        else Inr (window_response r annotations affine annotation_style))
      else Inr (window_response r annotations affine annotation_style))"

text \<open>Lines 192 to 228 together, from the annotations of the request to the response.\<close>

definition annotated_window ::
  "('img, 'anns, 'aff) annotation_api \<Rightarrow> 'img resolved \<Rightarrow> 'anns annotations_arg \<Rightarrow> pyval \<Rightarrow>
   headers \<Rightarrow> problem + ('img, 'anns, 'aff) image_response" where
  "annotated_window api r annotations annotation_style hdrs =
     attempt (prepare_annotations api (r_in_image r) annotations annotation_style hdrs)
       (\<lambda>annotations.
     attempt (crop_affine api annotations (r_region r) (r_out_width r, r_out_height r))
       (\<lambda>affine.
     make_window api r annotations affine annotation_style))"

section \<open>pims/api/window.py: the whole of \<open>_show_window\<close> and the endpoint\<close>

text \<open>
  The arguments of \<open>_show_window\<close> other than the path, the headers and the
  configuration, under the names of the source (prefixed, since \<open>length\<close> and others are
  names of the library). The last four have defaults.
\<close>

record 'anns window_request =
  q_region :: region_arg
  q_height :: pyval
  q_width :: pyval
  q_length :: pyval
  q_zoom :: pyval
  q_level :: pyval
  q_channels :: pyval
  q_z_slices :: pyval
  q_timepoints :: pyval
  q_min_intensities :: pyval
  q_max_intensities :: pyval
  q_filters :: pyval
  q_gammas :: pyval
  q_threshold :: pyval
  q_bits :: pyval
  q_colorspace :: pyval
  q_annotations :: "'anns annotations_arg"
  q_annotation_style :: pyval
  q_extension :: pyval
  q_colormaps :: "pyval kwarg"
  q_c_reduction :: "reduction option kwarg"
  q_z_reduction :: "reduction option kwarg"
  q_t_reduction :: "reduction option kwarg"

text \<open>
  Modelled from the spec: \<open>check_representation_existence\<close> (pims.api.exceptions) is
  missing from the sources. Section 7: \<open>NoAppropriateRepresentation\<close> is raised when the
  "addressed resource cannot serve a single-image representation", which is when the
  path has no spatial representation (\<open>get_cached_spatial\<close>, a parameter, gives \<open>None\<close>).
\<close>

definition check_representation_existence :: "'img option \<Rightarrow> problem + 'img" where
  "check_representation_existence in_image =
     (case in_image of
        None \<Rightarrow> Inl (NoAppropriateRepresentationProblem None)
      | Some i \<Rightarrow> Inr i)"

text \<open>
  The HTTP response is made by a method of the response classes from the mimetype and
  the headers that report the requested and the safeguarded sizes; it is represented by
  these four values.
\<close>

datatype ('img, 'anns, 'aff) http_response =
  HttpResponse "('img, 'anns, 'aff) image_response" pyval "int \<times> int" "int \<times> int"

definition show_window ::
  "(Path \<Rightarrow> 'img option) \<Rightarrow> ('img, 'tier) geometry \<Rightarrow> 'img dimensions \<Rightarrow> 'img processing \<Rightarrow>
   ('img, 'anns, 'aff) annotation_api \<Rightarrow>
   Path \<Rightarrow> 'anns window_request \<Rightarrow> headers \<Rightarrow> config \<Rightarrow>
   problem + ('img, 'anns, 'aff) http_response" where
  "show_window get_cached_spatial geo dims proc api path q hdrs cfg =
     attempt (check_representation_existence (get_cached_spatial path)) (\<lambda>in_image.
     attempt (resolve_region geo in_image (q_region q)) (\<lambda>region.
     attempt (get_output_format geo (q_extension q) (accept hdrs)) (\<lambda>(out_format, mimetype).
     attempt (check_zoom_validity geo in_image (q_zoom q)) (\<lambda>_.
     attempt (check_level_validity geo in_image (q_level q)) (\<lambda>_.
     attempt (get_window_output_dimensions geo in_image region
                (q_height q) (q_width q) (q_length q) (q_zoom q) (q_level q)) (\<lambda>req_size.
     attempt (safeguard_output_dimensions geo (safe_mode hdrs) (output_size_limit cfg)
                (fst req_size) (snd req_size)) (\<lambda>out_size.
     attempt (resolve_dimensions dims in_image (q_channels q) (q_z_slices q) (q_timepoints q)
                (q_c_reduction q) (q_z_reduction q) (q_t_reduction q))
       (\<lambda>(channels, z_slices, timepoints).
     attempt (channel_parameters proc in_image channels z_slices timepoints
                (q_min_intensities q) (q_max_intensities q) (q_colormaps q)
                (q_filters q) (q_gammas q))
       (\<lambda>(channels, min_intensities, max_intensities, colormaps, gammas, filters).
     attempt (parse_bitdepth proc in_image (q_bits q)) (\<lambda>out_bitdepth.
     attempt (annotated_window api
                \<lparr>r_in_image = in_image, r_channels = channels, r_z_slices = z_slices,
                 r_timepoints = timepoints, r_region = region, r_out_format = out_format,
                 r_out_width = fst out_size, r_out_height = snd out_size,
                 r_c_reduction = kwarg_value (Some ADD) (q_c_reduction q),
                 r_z_reduction = kwarg_value None (q_z_reduction q),
                 r_t_reduction = kwarg_value None (q_t_reduction q),
                 r_gammas = gammas, r_filters = filters, r_colormaps = colormaps,
                 r_min_intensities = min_intensities, r_max_intensities = max_intensities,
                 r_out_bitdepth = out_bitdepth, r_threshold = q_threshold q,
                 r_colorspace = q_colorspace q\<rparr>
                (q_annotations q) (q_annotation_style q) hdrs) (\<lambda>window.
     Inr (HttpResponse window mimetype req_size out_size))))))))))))"

text \<open>
  The endpoint: the framework resolves the dependency \<open>imagepath_parameter\<close> to get the
  path before it calls the handler, which passes the fields of the body on.
\<close>

definition show_window_with_body ::
  "files \<Rightarrow> (Path \<Rightarrow> 'img option) \<Rightarrow> ('img, 'tier) geometry \<Rightarrow> 'img dimensions \<Rightarrow>
   'img processing \<Rightarrow> ('img, 'anns, 'aff) annotation_api \<Rightarrow>
   string \<Rightarrow> 'anns window_request \<Rightarrow> headers \<Rightarrow> config \<Rightarrow>
   problem + ('img, 'anns, 'aff) http_response" where
  "show_window_with_body fs get_cached_spatial geo dims proc api filepath body hdrs cfg =
     attempt (imagepath_parameter fs filepath) (\<lambda>path.
     show_window get_cached_spatial geo dims proc api path body hdrs cfg)"

section \<open>Concrete collaborators for worked examples\<close>

text \<open>
  An image of 1024 by 1024 pixels with a single tier cut into 4 by 4 tiles of 256 pixels,
  3 channels, 5 focal planes and 2 timepoints. These stand-ins for the functions that are
  not among the sources are used only to run the model on concrete requests.
\<close>

definition test_geometry :: "(unit, unit) geometry" where
  "test_geometry =
     \<lparr>max_zoom = (\<lambda>_. 0),
      parse_region = (\<lambda>_ t l w h rti tit silent_oob.
         case (t, l, w, h) of
           (VInt t, VInt l, VInt w, VInt h) \<Rightarrow>
             if 0 \<le> t \<and> 0 \<le> l \<and> 0 < w \<and> 0 < h \<and> t + h \<le> 1024 \<and> l + w \<le> 1024
             then Inr (Region t l w h) else Inl OutOfBoundsRegion
         | _ \<Rightarrow> Inl (TypeError ''region'')),
      check_tileindex_validity = (\<lambda>_ ti rti tit.
         case ti of
           VInt i \<Rightarrow> if 0 \<le> i \<and> i < 16 then Inr () else Inl InvalidTileAddress
         | _ \<Rightarrow> Inl (TypeError ''ti'')),
      check_tilecoord_validity = (\<lambda>_ tx ty rti tit.
         case (tx, ty) of
           (VInt x, VInt y) \<Rightarrow>
             if 0 \<le> x \<and> x < 4 \<and> 0 \<le> y \<and> y < 4 then Inr () else Inl InvalidTileAddress
         | _ \<Rightarrow> Inl (TypeError ''tx'')),
      get_tier_at = (\<lambda>_ rti tit. Inr ()),
      get_ti_tile = (\<lambda>_ ti.
         case ti of
           VInt i \<Rightarrow> Inr (Region (256 * (i div 4)) (256 * (i mod 4)) 256 256)
         | _ \<Rightarrow> Inl (TypeError ''ti'')),
      get_txty_tile = (\<lambda>_ tx ty.
         case (tx, ty) of
           (VInt x, VInt y) \<Rightarrow> Inr (Region (256 * y) (256 * x) 256 256)
         | _ \<Rightarrow> Inl (TypeError ''tx'')),
      get_output_format = (\<lambda>extension accepted. Inr (VStr ''PNG'', VStr ''image/png'')),
      check_zoom_validity = (\<lambda>_ zoom. Inr ()),
      check_level_validity = (\<lambda>_ level. Inr ()),
      get_window_output_dimensions = (\<lambda>_ region h w l zoom level.
         case region of
           RegionObj (Region rt rl rw rh) \<Rightarrow> Inr (rw, rh)
         | RegionDict d \<Rightarrow> Inl (AttributeError ''width'')),
      safeguard_output_dimensions = (\<lambda>safe limit w h. Inr (w, h))\<rparr>"

definition int_indexes :: "pyval list \<Rightarrow> int list" where
  "int_indexes sel = concat (map (\<lambda>v. case v of VInt i \<Rightarrow> [i] | _ \<Rightarrow> []) sel)"

definition test_dimensions :: "unit dimensions" where
  "test_dimensions =
     \<lparr>get_channel_indexes = (\<lambda>_ sel. if sel = [] then Inr [0, 1, 2] else Inr (int_indexes sel)),
      get_zslice_indexes = (\<lambda>_ sel. if sel = [] then Inr [2] else Inr (int_indexes sel)),
      get_timepoint_indexes = (\<lambda>_ sel. if sel = [] then Inr [0] else Inr (int_indexes sel))\<rparr>"

definition test_processing :: "unit processing" where
  "test_processing =
     \<lparr>default_min_intensity = (\<lambda>_ c. VInt 0),
      default_max_intensity = (\<lambda>_ c. VInt 255),
      default_colormap = (\<lambda>_ c. VStr ''DEFAULT''),
      default_gamma = VInt 1,
      useless_channel = (\<lambda>c lo hi m g. m = VStr ''BLACK''),
      parse_filter_ids = (\<lambda>filters. Inr filters),
      parse_bitdepth = (\<lambda>_ bits. Inr (VInt 8))\<rparr>"

definition test_annotation_api :: "(unit, pyval list, unit) annotation_api" where
  "test_annotation_api =
     \<lparr>parse_annotations = (\<lambda>xs ignore_fields default_fields pel origin h. Inr xs),
      annotations_bool = (\<lambda>p. p \<noteq> []),
      annotations_region = (\<lambda>p. Region 0 0 10 10),
      annotation_crop_affine_matrix = (\<lambda>annot_region region w h. Inr ()),
      im_height = (\<lambda>_. 1024)\<rparr>"

definition test_files :: files where
  "test_files =
     \<lparr>from_filepath = Path,
      exists = (\<lambda>p. p = Path ''slide.tif'' \<or> p = Path ''archive.zip''),
      is_single = (\<lambda>p. p = Path ''slide.tif'')\<rparr>"

definition test_resolved :: "unit resolved" where
  "test_resolved =
     \<lparr>r_in_image = (), r_channels = [0], r_z_slices = [2], r_timepoints = [0],
      r_region = RegionObj (Region 0 0 256 256), r_out_format = VStr ''PNG'',
      r_out_width = 256, r_out_height = 256,
      r_c_reduction = Some ADD, r_z_reduction = None, r_t_reduction = None,
      r_gammas = [VInt 1], r_filters = [], r_colormaps = [VStr ''DEFAULT''],
      r_min_intensities = [VInt 0], r_max_intensities = [VInt 255],
      r_out_bitdepth = VInt 8, r_threshold = VNone, r_colorspace = VNone\<rparr>"

definition test_headers :: headers where
  "test_headers = \<lparr>accept = VStr ''image/png'', safe_mode = VStr ''SAFE_RESIZE'',
                    annot_origin = VStr ''LEFT_TOP''\<rparr>"

definition test_request :: "pyval list window_request" where
  "test_request =
     \<lparr>q_region = RegionDict [(KStr ''tier_index_type'', VTier ZOOM),
                             (KStr ''reference_tier_index'', VNone),
                             (KStr ''ti'', VInt 5)],
      q_height = VNone, q_width = VNone, q_length = VNone, q_zoom = VNone, q_level = VNone,
      q_channels = VNone, q_z_slices = VNone, q_timepoints = VNone,
      q_min_intensities = VNone, q_max_intensities = VInt 10,
      q_filters = VNone, q_gammas = VNone, q_threshold = VNone, q_bits = VInt 8,
      q_colorspace = VNone, q_annotations = RawAnnotations VNone,
      q_annotation_style = VNone, q_extension = VStr ''.png'',
      q_colormaps = Omitted, q_c_reduction = Omitted, q_z_reduction = Omitted,
      q_t_reduction = Omitted\<rparr>"

definition test_config :: config where
  "test_config = \<lparr>output_size_limit = VInt 10000\<rparr>"

section \<open>Properties of parameter.py\<close>

lemma hyphen_not_bad: "45 \<notin> set bad_chars"
  by (simp add: bad_chars_def)

lemma replaced_chars:
  "set (concat (map (\<lambda>c. if c \<notin> B then [c] else r) xs)) \<subseteq> (set xs - B) \<union> set r"
  by (induction xs) auto

text \<open>
  C10. Whatever the library sanitizer returns, the file name sanitized with the default
  replacement (left out, or passed as the hyphen) holds no character of \<open>bad_chars\<close>,
  and each of its characters is the hyphen or a character of the library's result that is
  outside \<open>bad_chars\<close>.
\<close>

theorem sanitize_filename_no_bad_chars:
  "set (sanitize_filename lib filename Omitted) \<inter> set bad_chars = {}
   \<and> set (sanitize_filename lib filename (Passed [45])) \<inter> set bad_chars = {}
   \<and> set (sanitize_filename lib filename Omitted)
        \<subseteq> insert 45 (set (lib filename [45]) - set bad_chars)"
proof -
  let ?r = "concat (map (\<lambda>c. if c \<notin> set bad_chars then [c] else [45]) (lib filename [45]))"
  have sub: "set ?r \<subseteq> (set (lib filename [45]) - set bad_chars) \<union> set [45]"
    by (rule replaced_chars)
  have om: "sanitize_filename lib filename Omitted = ?r"
    by (simp add: sanitize_filename_def Let_def)
  have pa: "sanitize_filename lib filename (Passed [45]) = ?r"
    by (simp add: sanitize_filename_def Let_def)
  have disj: "set ?r \<inter> set bad_chars = {}"
    using sub hyphen_not_bad by auto
  show ?thesis
    using sub disj by (simp only: om pa) auto
qed

text \<open>
  C8. \<open>imagepath_parameter\<close> fails with the not-found problem exactly when the file is
  absent, with the no-appropriate-representation problem exactly when the file exists and
  is not a single image, and returns the path exactly when both checks pass; it has no
  other outcome. In the endpoint a failure of either check is the whole answer: nothing
  of \<open>_show_window\<close> is evaluated, whatever the image functions are.
\<close>

theorem imagepath_parameter_cases:
  "(imagepath_parameter fs filepath = Inl (FilepathNotFoundProblem (from_filepath fs filepath))
      \<longleftrightarrow> \<not> exists fs (from_filepath fs filepath))
   \<and> (imagepath_parameter fs filepath
         = Inl (NoAppropriateRepresentationProblem (Some (from_filepath fs filepath)))
      \<longleftrightarrow> exists fs (from_filepath fs filepath) \<and> \<not> is_single fs (from_filepath fs filepath))
   \<and> (imagepath_parameter fs filepath = Inr (from_filepath fs filepath)
      \<longleftrightarrow> exists fs (from_filepath fs filepath) \<and> is_single fs (from_filepath fs filepath))
   \<and> (\<forall>e. imagepath_parameter fs filepath = Inl e \<longrightarrow>
          (e = FilepathNotFoundProblem (from_filepath fs filepath)
           \<or> e = NoAppropriateRepresentationProblem (Some (from_filepath fs filepath)))
          \<and> show_window_with_body fs get_cached_spatial geo dims proc api filepath body hdrs cfg
              = Inl e)
   \<and> (\<forall>p. imagepath_parameter fs filepath = Inr p \<longrightarrow>
          p = from_filepath fs filepath
          \<and> show_window_with_body fs get_cached_spatial geo dims proc api filepath body hdrs cfg
              = show_window get_cached_spatial geo dims proc api p body hdrs cfg)"
  by (simp add: imagepath_parameter_def show_window_with_body_def Let_def)

theorem imagepath_parameter_cases_witness:
  "imagepath_parameter test_files ''missing.tif'' = Inl (FilepathNotFoundProblem (Path ''missing.tif''))
   \<and> imagepath_parameter test_files ''archive.zip''
       = Inl (NoAppropriateRepresentationProblem (Some (Path ''archive.zip'')))
   \<and> imagepath_parameter test_files ''slide.tif'' = Inr (Path ''slide.tif'')
   \<and> show_window_with_body test_files (\<lambda>_. Some ()) test_geometry test_dimensions
       test_processing test_annotation_api ''missing.tif'' test_request test_headers test_config
       = Inl (FilepathNotFoundProblem (Path ''missing.tif''))"
proof -
  have a: "imagepath_parameter test_files ''missing.tif''
             = Inl (FilepathNotFoundProblem (Path ''missing.tif''))"
    using imagepath_parameter_cases
      [where fs = test_files and filepath = "''missing.tif''", THEN conjunct1]
    by (simp add: test_files_def)
  have b: "imagepath_parameter test_files ''archive.zip''
             = Inl (NoAppropriateRepresentationProblem (Some (Path ''archive.zip'')))"
    using imagepath_parameter_cases
      [where fs = test_files and filepath = "''archive.zip''", THEN conjunct2, THEN conjunct1]
    by (simp add: test_files_def)
  have c: "imagepath_parameter test_files ''slide.tif'' = Inr (Path ''slide.tif'')"
    using imagepath_parameter_cases
      [where fs = test_files and filepath = "''slide.tif''", THEN conjunct2, THEN conjunct2,
       THEN conjunct1]
    by (simp add: test_files_def)
  have d: "show_window_with_body test_files (\<lambda>_. Some ()) test_geometry test_dimensions
       test_processing test_annotation_api ''missing.tif'' test_request test_headers test_config
       = Inl (FilepathNotFoundProblem (Path ''missing.tif''))"
    using a imagepath_parameter_cases
      [where fs = test_files and filepath = "''missing.tif''"
         and get_cached_spatial = "\<lambda>_. Some ()" and geo = test_geometry
         and dims = test_dimensions and proc = test_processing and api = test_annotation_api
         and body = test_request and hdrs = test_headers and cfg = test_config,
       THEN conjunct2, THEN conjunct2, THEN conjunct2, THEN conjunct1]
    by simp
  show ?thesis using a b c d by simp
qed

section \<open>Properties of the region of the request\<close>

lemma getitem_contains: "getitem d k = Inr v \<Longrightarrow> contains k d"
  by (auto simp: getitem_def contains_def split: option.splits dest: map_of_SomeD
           intro: rev_image_eqI)

lemma string_keys_no_tuple: "string_keys d \<Longrightarrow> \<not> contains (KTuple ks) d"
  by (force simp: string_keys_def contains_def list_all_iff)

lemma resolve_region_top:
  assumes "getitem d (KStr ''tier_index_type'') = Inr tit"
      and "getitem d (KStr ''reference_tier_index'') = Inr rti"
      and "getitem d (KStr ''top'') = Inr t" and "getitem d (KStr ''left'') = Inr l"
      and "getitem d (KStr ''width'') = Inr w" and "getitem d (KStr ''height'') = Inr h"
  shows "resolve_region geo in_image (RegionDict d)
           = attempt (parse_region geo in_image t l w h
                        (reference_tier geo in_image tit rti) tit False)
               (\<lambda>r. Inr (RegionObj r))"
proof -
  have "contains (KStr ''top'') d" using assms(3) by (rule getitem_contains)
  then show ?thesis using assms by (simp add: resolve_region_def Let_def)
qed

lemma resolve_region_ti:
  assumes "getitem d (KStr ''tier_index_type'') = Inr tit"
      and "getitem d (KStr ''reference_tier_index'') = Inr rti"
      and "\<not> contains (KStr ''top'') d" and "getitem d (KStr ''ti'') = Inr ti"
  shows "resolve_region geo in_image (RegionDict d)
           = attempt (check_tileindex_validity geo in_image ti
                        (reference_tier geo in_image tit rti) tit) (\<lambda>_.
             attempt (get_tier_at geo in_image (reference_tier geo in_image tit rti) tit) (\<lambda>tier.
             attempt (get_ti_tile geo tier ti) (\<lambda>r. Inr (RegionObj r))))"
proof -
  have "contains (KStr ''ti'') d" using assms(4) by (rule getitem_contains)
  then show ?thesis using assms by (simp add: resolve_region_def Let_def)
qed

lemma resolve_region_none:
  assumes "getitem d (KStr ''tier_index_type'') = Inr tit"
      and "getitem d (KStr ''reference_tier_index'') = Inr rti"
      and "\<not> contains (KStr ''top'') d" and "\<not> contains (KStr ''ti'') d"
      and "\<not> contains (KTuple [KStr ''tx'', KStr ''ty'']) d"
  shows "resolve_region geo in_image (RegionDict d) = Inr (RegionDict d)"
  using assms by (simp add: resolve_region_def Let_def)

text \<open>
  C1. The request \<open>{tier_index_type: ZOOM, reference_tier_index: None, tx: 0, ty: 0}\<close>
  addresses the tile \<open>(0, 0)\<close>. Whatever the pyramid is, the block neither validates the
  pair nor translates it: the variable \<open>region\<close> is still the raw dictionary after it,
  because the keys of the dictionary are the strings \<open>'tx'\<close> and \<open>'ty'\<close> and not the tuple
  that line 134 looks for.
\<close>

theorem tile_coordinate_payload_not_resolved:
  "resolve_region geo in_image
     (RegionDict [(KStr ''tier_index_type'', VTier ZOOM),
                  (KStr ''reference_tier_index'', VNone),
                  (KStr ''tx'', VInt 0), (KStr ''ty'', VInt 0)])
   = Inr (RegionDict [(KStr ''tier_index_type'', VTier ZOOM),
                      (KStr ''reference_tier_index'', VNone),
                      (KStr ''tx'', VInt 0), (KStr ''ty'', VInt 0)])"
  by (simp add: resolve_region_def getitem_def contains_def)

text \<open>
  The same holds of every raw region whose keys are strings and which has neither \<open>top\<close>
  nor \<open>ti\<close>: the two functions of the tile coordinates are never reached.
\<close>

lemma string_keyed_coordinates_not_resolved:
  assumes "string_keys d"
      and "getitem d (KStr ''tier_index_type'') = Inr tit"
      and "getitem d (KStr ''reference_tier_index'') = Inr rti"
      and "\<not> contains (KStr ''top'') d" and "\<not> contains (KStr ''ti'') d"
  shows "resolve_region geo in_image (RegionDict d) = Inr (RegionDict d)"
  using assms string_keys_no_tuple [OF assms(1)] by (intro resolve_region_none) auto

text \<open>
  C2, as stated, fails: a raw region that holds both the normalized descriptor and a tile
  index is not rejected; it is resolved as the normalized region.
\<close>

theorem ambiguous_region_payload_is_resolved:
  "resolve_region test_geometry ()
     (RegionDict [(KStr ''tier_index_type'', VTier LEVEL),
                  (KStr ''reference_tier_index'', VNone),
                  (KStr ''top'', VInt 0), (KStr ''left'', VInt 0),
                  (KStr ''width'', VInt 100), (KStr ''height'', VInt 100),
                  (KStr ''ti'', VInt 5)])
   = Inr (RegionObj (Region 0 0 100 100))"
  by (simp add: resolve_region_def getitem_def contains_def reference_tier_def
        test_geometry_def)

lemma contains_getitem: "contains k d \<Longrightarrow> \<exists>v. getitem d k = Inr v"
  by (cases "map_of d k") (auto simp: getitem_def contains_def map_of_eq_None_iff)

lemma resolve_region_no_tier_type:
  assumes "getitem d (KStr ''tier_index_type'') = Inl e"
  shows "resolve_region geo in_image (RegionDict d) = Inl e"
  using assms by (simp add: resolve_region_def)

lemma resolve_region_no_reference_tier:
  assumes "getitem d (KStr ''tier_index_type'') = Inr tit"
      and "getitem d (KStr ''reference_tier_index'') = Inl e"
  shows "resolve_region geo in_image (RegionDict d) = Inl e"
  using assms by (simp add: resolve_region_def)

lemma resolve_region_with_top:
  assumes "getitem d (KStr ''tier_index_type'') = Inr tit"
      and "getitem d (KStr ''reference_tier_index'') = Inr rti"
      and "getitem d (KStr ''top'') = Inr t"
  shows "resolve_region geo in_image (RegionDict d)
           = attempt (getitem d (KStr ''left'')) (\<lambda>l.
             attempt (getitem d (KStr ''width'')) (\<lambda>w.
             attempt (getitem d (KStr ''height'')) (\<lambda>h.
             attempt (parse_region geo in_image t l w h
                        (reference_tier geo in_image tit rti) tit False) (\<lambda>r.
             Inr (RegionObj r)))))"
proof -
  have "contains (KStr ''top'') d" using assms(3) by (rule getitem_contains)
  then show ?thesis using assms by (simp add: resolve_region_def Let_def)
qed

text \<open>
  C2, amended. The block first reads the keys \<open>tier_index_type\<close> and
  \<open>reference_tier_index\<close>: when one of them is missing the \<open>KeyError\<close> of that key is the
  result, before any descriptor is looked at. With both present, the descriptor is chosen
  by the presence of keys in a fixed order and nothing checks that exactly one descriptor
  is present. A raw region with the key \<open>top\<close> is handled as a normalized region
  whatever other keys it holds: \<open>left\<close>, \<open>width\<close> and \<open>height\<close> are read in this order,
  the first one missing is a \<open>KeyError\<close>, and otherwise the result is the one of
  \<open>parse_region\<close>. A raw region without \<open>top\<close> and with \<open>ti\<close> is handled as a tile index
  whatever other keys it holds: the result is the one of the validation of the index, of
  the tier and of its tile. A raw region with none of the keys \<open>top\<close>, \<open>ti\<close>, \<open>tx\<close>,
  \<open>ty\<close> and without the tuple key \<open>('tx', 'ty')\<close> is not rejected: the block returns the
  raw dictionary unchanged.
\<close>

theorem region_descriptor_precedence:
  "(getitem d (KStr ''tier_index_type'') = Inl e \<longrightarrow>
      resolve_region geo in_image (RegionDict d) = Inl e)
   \<and> (getitem d (KStr ''tier_index_type'') = Inr tit
        \<and> getitem d (KStr ''reference_tier_index'') = Inl e \<longrightarrow>
      resolve_region geo in_image (RegionDict d) = Inl e)
   \<and> (getitem d (KStr ''tier_index_type'') = Inr tit
        \<and> getitem d (KStr ''reference_tier_index'') = Inr rti \<longrightarrow>
      (getitem d (KStr ''top'') = Inr t \<longrightarrow>
         resolve_region geo in_image (RegionDict d)
           = attempt (getitem d (KStr ''left'')) (\<lambda>l.
             attempt (getitem d (KStr ''width'')) (\<lambda>w.
             attempt (getitem d (KStr ''height'')) (\<lambda>h.
             attempt (parse_region geo in_image t l w h
                        (reference_tier geo in_image tit rti) tit False) (\<lambda>r.
             Inr (RegionObj r))))))
      \<and> (\<not> contains (KStr ''top'') d \<and> getitem d (KStr ''ti'') = Inr ti \<longrightarrow>
         resolve_region geo in_image (RegionDict d)
           = attempt (check_tileindex_validity geo in_image ti
                        (reference_tier geo in_image tit rti) tit) (\<lambda>_.
             attempt (get_tier_at geo in_image (reference_tier geo in_image tit rti) tit)
               (\<lambda>tier.
             attempt (get_ti_tile geo tier ti) (\<lambda>r. Inr (RegionObj r)))))
      \<and> (\<not> contains (KStr ''top'') d \<and> \<not> contains (KStr ''ti'') d
           \<and> \<not> contains (KStr ''tx'') d \<and> \<not> contains (KStr ''ty'') d
           \<and> \<not> contains (KTuple [KStr ''tx'', KStr ''ty'']) d \<longrightarrow>
         resolve_region geo in_image (RegionDict d) = Inr (RegionDict d)))"
proof (intro conjI impI)
  assume "getitem d (KStr ''tier_index_type'') = Inl e"
  then show "resolve_region geo in_image (RegionDict d) = Inl e"
    by (rule resolve_region_no_tier_type)
next
  assume "getitem d (KStr ''tier_index_type'') = Inr tit
        \<and> getitem d (KStr ''reference_tier_index'') = Inl e"
  then show "resolve_region geo in_image (RegionDict d) = Inl e"
    by (intro resolve_region_no_reference_tier [where tit = tit]) simp_all
next
  assume tiers: "getitem d (KStr ''tier_index_type'') = Inr tit
        \<and> getitem d (KStr ''reference_tier_index'') = Inr rti"
    and "getitem d (KStr ''top'') = Inr t"
  then show "resolve_region geo in_image (RegionDict d)
           = attempt (getitem d (KStr ''left'')) (\<lambda>l.
             attempt (getitem d (KStr ''width'')) (\<lambda>w.
             attempt (getitem d (KStr ''height'')) (\<lambda>h.
             attempt (parse_region geo in_image t l w h
                        (reference_tier geo in_image tit rti) tit False) (\<lambda>r.
             Inr (RegionObj r)))))"
    by (intro resolve_region_with_top) simp_all
next
  assume tiers: "getitem d (KStr ''tier_index_type'') = Inr tit
        \<and> getitem d (KStr ''reference_tier_index'') = Inr rti"
    and "\<not> contains (KStr ''top'') d \<and> getitem d (KStr ''ti'') = Inr ti"
  then show "resolve_region geo in_image (RegionDict d)
           = attempt (check_tileindex_validity geo in_image ti
                        (reference_tier geo in_image tit rti) tit) (\<lambda>_.
             attempt (get_tier_at geo in_image (reference_tier geo in_image tit rti) tit)
               (\<lambda>tier.
             attempt (get_ti_tile geo tier ti) (\<lambda>r. Inr (RegionObj r))))"
    by (intro resolve_region_ti) simp_all
next
  assume tiers: "getitem d (KStr ''tier_index_type'') = Inr tit
        \<and> getitem d (KStr ''reference_tier_index'') = Inr rti"
    and "\<not> contains (KStr ''top'') d \<and> \<not> contains (KStr ''ti'') d
           \<and> \<not> contains (KStr ''tx'') d \<and> \<not> contains (KStr ''ty'') d
           \<and> \<not> contains (KTuple [KStr ''tx'', KStr ''ty'']) d"
  then show "resolve_region geo in_image (RegionDict d) = Inr (RegionDict d)"
    by (intro resolve_region_none [where tit = tit and rti = rti]) simp_all
qed

theorem region_descriptor_precedence_witness:
  "resolve_region test_geometry ()
     (RegionDict [(KStr ''reference_tier_index'', VNone), (KStr ''ti'', VInt 5)])
     = Inl (KeyError (KStr ''tier_index_type''))
   \<and> resolve_region test_geometry ()
     (RegionDict [(KStr ''tier_index_type'', VTier LEVEL), (KStr ''ti'', VInt 5)])
     = Inl (KeyError (KStr ''reference_tier_index''))
   \<and> resolve_region test_geometry ()
     (RegionDict [(KStr ''tier_index_type'', VTier LEVEL),
                  (KStr ''reference_tier_index'', VNone),
                  (KStr ''top'', VInt 0), (KStr ''left'', VInt 0),
                  (KStr ''width'', VInt 100), (KStr ''height'', VInt 100),
                  (KStr ''ti'', VInt 5)])
     = Inr (RegionObj (Region 0 0 100 100))
   \<and> resolve_region test_geometry ()
     (RegionDict [(KStr ''tier_index_type'', VTier LEVEL),
                  (KStr ''reference_tier_index'', VNone),
                  (KStr ''top'', VInt 0), (KStr ''ti'', VInt 5)])
     = Inl (KeyError (KStr ''left''))
   \<and> resolve_region test_geometry ()
     (RegionDict [(KStr ''tier_index_type'', VTier LEVEL),
                  (KStr ''reference_tier_index'', VNone),
                  (KStr ''ti'', VInt 5), (KStr ''tx'', VInt 0), (KStr ''ty'', VInt 0)])
     = Inr (RegionObj (Region 256 256 256 256))
   \<and> resolve_region test_geometry ()
     (RegionDict [(KStr ''tier_index_type'', VTier LEVEL),
                  (KStr ''reference_tier_index'', VNone)])
     = Inr (RegionDict [(KStr ''tier_index_type'', VTier LEVEL),
                        (KStr ''reference_tier_index'', VNone)])"
proof -
  have k1: "resolve_region test_geometry ()
     (RegionDict [(KStr ''reference_tier_index'', VNone), (KStr ''ti'', VInt 5)])
     = Inl (KeyError (KStr ''tier_index_type''))"
    using region_descriptor_precedence
      [where d = "[(KStr ''reference_tier_index'', VNone), (KStr ''ti'', VInt 5)]"
         and e = "KeyError (KStr ''tier_index_type'')"
         and geo = test_geometry and in_image = "()", THEN conjunct1]
    by (simp add: getitem_def)
  have k2: "resolve_region test_geometry ()
     (RegionDict [(KStr ''tier_index_type'', VTier LEVEL), (KStr ''ti'', VInt 5)])
     = Inl (KeyError (KStr ''reference_tier_index''))"
    using region_descriptor_precedence
      [where d = "[(KStr ''tier_index_type'', VTier LEVEL), (KStr ''ti'', VInt 5)]"
         and e = "KeyError (KStr ''reference_tier_index'')" and tit = "VTier LEVEL"
         and geo = test_geometry and in_image = "()", THEN conjunct2, THEN conjunct1]
    by (simp add: getitem_def)
  have a: "resolve_region test_geometry ()
     (RegionDict [(KStr ''tier_index_type'', VTier LEVEL),
                  (KStr ''reference_tier_index'', VNone),
                  (KStr ''top'', VInt 0), (KStr ''left'', VInt 0),
                  (KStr ''width'', VInt 100), (KStr ''height'', VInt 100),
                  (KStr ''ti'', VInt 5)])
     = Inr (RegionObj (Region 0 0 100 100))"
    using region_descriptor_precedence
      [where d = "[(KStr ''tier_index_type'', VTier LEVEL),
                  (KStr ''reference_tier_index'', VNone),
                  (KStr ''top'', VInt 0), (KStr ''left'', VInt 0),
                  (KStr ''width'', VInt 100), (KStr ''height'', VInt 100),
                  (KStr ''ti'', VInt 5)]"
         and tit = "VTier LEVEL" and rti = VNone and t = "VInt 0" and ti = "VInt 5"
         and geo = test_geometry and in_image = "()",
       THEN conjunct2, THEN conjunct2]
    by (simp add: getitem_def contains_def reference_tier_def test_geometry_def)
  have a': "resolve_region test_geometry ()
     (RegionDict [(KStr ''tier_index_type'', VTier LEVEL),
                  (KStr ''reference_tier_index'', VNone),
                  (KStr ''top'', VInt 0), (KStr ''ti'', VInt 5)])
     = Inl (KeyError (KStr ''left''))"
    using region_descriptor_precedence
      [where d = "[(KStr ''tier_index_type'', VTier LEVEL),
                  (KStr ''reference_tier_index'', VNone),
                  (KStr ''top'', VInt 0), (KStr ''ti'', VInt 5)]"
         and tit = "VTier LEVEL" and rti = VNone and t = "VInt 0" and ti = "VInt 5"
         and geo = test_geometry and in_image = "()",
       THEN conjunct2, THEN conjunct2]
    by (simp add: getitem_def contains_def)
  have b: "resolve_region test_geometry ()
     (RegionDict [(KStr ''tier_index_type'', VTier LEVEL),
                  (KStr ''reference_tier_index'', VNone),
                  (KStr ''ti'', VInt 5), (KStr ''tx'', VInt 0), (KStr ''ty'', VInt 0)])
     = Inr (RegionObj (Region 256 256 256 256))"
    using region_descriptor_precedence
      [where d = "[(KStr ''tier_index_type'', VTier LEVEL),
                  (KStr ''reference_tier_index'', VNone),
                  (KStr ''ti'', VInt 5), (KStr ''tx'', VInt 0), (KStr ''ty'', VInt 0)]"
         and tit = "VTier LEVEL" and rti = VNone and t = "VInt 0" and ti = "VInt 5"
         and geo = test_geometry and in_image = "()",
       THEN conjunct2, THEN conjunct2]
    by (simp add: getitem_def contains_def reference_tier_def test_geometry_def)
  have c: "resolve_region test_geometry ()
     (RegionDict [(KStr ''tier_index_type'', VTier LEVEL),
                  (KStr ''reference_tier_index'', VNone)])
     = Inr (RegionDict [(KStr ''tier_index_type'', VTier LEVEL),
                        (KStr ''reference_tier_index'', VNone)])"
    using region_descriptor_precedence
      [where d = "[(KStr ''tier_index_type'', VTier LEVEL),
                  (KStr ''reference_tier_index'', VNone)]"
         and tit = "VTier LEVEL" and rti = VNone and t = "VInt 0" and ti = "VInt 5"
         and geo = test_geometry and in_image = "()",
       THEN conjunct2, THEN conjunct2]
    by (simp add: getitem_def contains_def)
  show ?thesis using k1 k2 a a' b c by simp
qed

section \<open>Properties of the dimension indexes\<close>

lemma resolve_dimensions_unfold:
  "resolve_dimensions dims in_image channels z_slices timepoints c_arg z_arg t_arg =
      attempt (get_channel_indexes dims in_image (ensure_list channels)) (\<lambda>cs.
      attempt (check_reduction_validity cs (kwarg_value (Some ADD) c_arg) ''channels'') (\<lambda>_.
      attempt (get_zslice_indexes dims in_image (ensure_list z_slices)) (\<lambda>zs.
      attempt (check_reduction_validity zs (kwarg_value None z_arg) ''z_slices'') (\<lambda>_.
      attempt (get_timepoint_indexes dims in_image (ensure_list timepoints)) (\<lambda>ts.
      attempt (check_reduction_validity ts (kwarg_value None t_arg) ''timepoints'') (\<lambda>_.
      Inr (cs, zs, ts)))))))"
  by (simp add: resolve_dimensions_def Let_def)

lemma check_reduction_fail:
  "1 < length planes \<Longrightarrow>
     check_reduction_validity planes None name = Inl (ReductionRequired name)"
  by (simp add: check_reduction_validity_def)

lemma check_reduction_pass:
  "length planes \<le> 1 \<or> reduction \<noteq> None \<Longrightarrow>
     check_reduction_validity planes reduction name = Inr ()"
  by (auto simp: check_reduction_validity_def)

lemma kwarg_none: "(a = Omitted \<or> a = Passed None) \<longleftrightarrow> kwarg_value None a = None"
  by (cases a) auto

lemma kwarg_add: "(a = Passed None) \<longleftrightarrow> kwarg_value (Some ADD) a = None"
  by (cases a) auto

lemma dimensions_channels_required:
  assumes "get_channel_indexes dims in_image (ensure_list channels) = Inr cs"
     and "1 < length cs" and "c_arg = Passed None"
  shows "resolve_dimensions dims in_image channels z_slices timepoints c_arg z_arg t_arg
             = Inl (ReductionRequired ''channels'')"
  using assms by (simp add: resolve_dimensions_unfold check_reduction_fail)

lemma dimensions_channels_default:
  assumes "get_channel_indexes dims in_image (ensure_list channels) = Inr cs"
     and "c_arg = Omitted"
  shows "resolve_dimensions dims in_image channels z_slices timepoints c_arg z_arg t_arg
           = attempt (get_zslice_indexes dims in_image (ensure_list z_slices)) (\<lambda>zs.
             attempt (check_reduction_validity zs (kwarg_value None z_arg) ''z_slices'') (\<lambda>_.
             attempt (get_timepoint_indexes dims in_image (ensure_list timepoints)) (\<lambda>ts.
             attempt (check_reduction_validity ts (kwarg_value None t_arg) ''timepoints'') (\<lambda>_.
             Inr (cs, zs, ts)))))"
  using assms by (simp add: resolve_dimensions_unfold check_reduction_pass)

lemma dimensions_zslices_required:
  assumes "get_channel_indexes dims in_image (ensure_list channels) = Inr cs"
     and "length cs \<le> 1 \<or> c_arg \<noteq> Passed None"
     and "get_zslice_indexes dims in_image (ensure_list z_slices) = Inr zs"
     and "1 < length zs" and "z_arg = Omitted \<or> z_arg = Passed None"
  shows "resolve_dimensions dims in_image channels z_slices timepoints c_arg z_arg t_arg
             = Inl (ReductionRequired ''z_slices'')"
proof -
  have c: "check_reduction_validity cs (kwarg_value (Some ADD) c_arg) ''channels'' = Inr ()"
    using assms(2) by (intro check_reduction_pass) (simp add: kwarg_add)
  have z: "kwarg_value None z_arg = None" using assms(5) by (simp add: kwarg_none)
  show ?thesis using assms(1,3,4) c z
    by (simp add: resolve_dimensions_unfold check_reduction_fail)
qed

lemma dimensions_timepoints_required:
  assumes "get_channel_indexes dims in_image (ensure_list channels) = Inr cs"
     and "length cs \<le> 1 \<or> c_arg \<noteq> Passed None"
     and "get_zslice_indexes dims in_image (ensure_list z_slices) = Inr zs"
     and "length zs \<le> 1 \<or> (z_arg \<noteq> Omitted \<and> z_arg \<noteq> Passed None)"
     and "get_timepoint_indexes dims in_image (ensure_list timepoints) = Inr ts"
     and "1 < length ts" and "t_arg = Omitted \<or> t_arg = Passed None"
  shows "resolve_dimensions dims in_image channels z_slices timepoints c_arg z_arg t_arg
             = Inl (ReductionRequired ''timepoints'')"
proof -
  have c: "check_reduction_validity cs (kwarg_value (Some ADD) c_arg) ''channels'' = Inr ()"
    using assms(2) by (intro check_reduction_pass) (simp add: kwarg_add)
  have z: "check_reduction_validity zs (kwarg_value None z_arg) ''z_slices'' = Inr ()"
    using assms(4) by (intro check_reduction_pass) (auto simp: kwarg_none [symmetric])
  have t: "kwarg_value None t_arg = None" using assms(7) by (simp add: kwarg_none)
  show ?thesis using assms(1,3,5,6) c z t
    by (simp add: resolve_dimensions_unfold check_reduction_fail)
qed

lemma dimensions_single:
  assumes "get_channel_indexes dims in_image (ensure_list channels) = Inr cs"
     and "length cs \<le> 1"
     and "get_zslice_indexes dims in_image (ensure_list z_slices) = Inr zs"
     and "length zs \<le> 1"
     and "get_timepoint_indexes dims in_image (ensure_list timepoints) = Inr ts"
     and "length ts \<le> 1"
  shows "resolve_dimensions dims in_image channels z_slices timepoints c_arg z_arg t_arg
             = Inr (cs, zs, ts)"
  using assms by (simp add: resolve_dimensions_unfold check_reduction_pass)

text \<open>
  C4, as stated, fails for the channels: the three channels of the test image are
  selected, the caller supplies no reduction function for any axis, and the resolution
  succeeds.
\<close>

theorem channels_without_reduction_accepted:
  "get_channel_indexes test_dimensions () (ensure_list VNone) = Inr [0, 1, 2]
   \<and> resolve_dimensions test_dimensions () VNone VNone VNone Omitted Omitted Omitted
       = Inr ([0, 1, 2], [2], [0])"
  by (simp add: resolve_dimensions_def test_dimensions_def ensure_list_def
        check_reduction_validity_def)

text \<open>
  C4, amended. With the channels resolved to \<open>cs\<close>: a channel reduction passed as
  \<open>None\<close> with more than one channel fails with \<open>ReductionRequired\<close>; a channel reduction
  left out is \<open>ADD\<close>, so the check of the channels raises nothing whatever the number of
  channels and the result is that of the remaining steps; for the focal planes and the
  timepoints, more than one index with the reduction left out or passed as \<open>None\<close> fails
  with \<open>ReductionRequired\<close> (when the steps before have passed); and when each of the
  three selections resolves to at most one index the resolution succeeds whatever the
  three reductions are.
\<close>

theorem reduction_required:
  assumes "get_channel_indexes dims in_image (ensure_list channels) = Inr cs"
  shows "(1 < length cs \<and> c_arg = Passed None \<longrightarrow>
            resolve_dimensions dims in_image channels z_slices timepoints c_arg z_arg t_arg
              = Inl (ReductionRequired ''channels''))
       \<and> (c_arg = Omitted \<longrightarrow>
            resolve_dimensions dims in_image channels z_slices timepoints c_arg z_arg t_arg
              = attempt (get_zslice_indexes dims in_image (ensure_list z_slices)) (\<lambda>zs.
                attempt (check_reduction_validity zs (kwarg_value None z_arg) ''z_slices'')
                  (\<lambda>_.
                attempt (get_timepoint_indexes dims in_image (ensure_list timepoints)) (\<lambda>ts.
                attempt (check_reduction_validity ts (kwarg_value None t_arg) ''timepoints'')
                  (\<lambda>_.
                Inr (cs, zs, ts))))))
       \<and> ((length cs \<le> 1 \<or> c_arg \<noteq> Passed None)
            \<and> get_zslice_indexes dims in_image (ensure_list z_slices) = Inr zs
            \<and> 1 < length zs \<and> (z_arg = Omitted \<or> z_arg = Passed None) \<longrightarrow>
            resolve_dimensions dims in_image channels z_slices timepoints c_arg z_arg t_arg
              = Inl (ReductionRequired ''z_slices''))
       \<and> ((length cs \<le> 1 \<or> c_arg \<noteq> Passed None)
            \<and> get_zslice_indexes dims in_image (ensure_list z_slices) = Inr zs
            \<and> (length zs \<le> 1 \<or> (z_arg \<noteq> Omitted \<and> z_arg \<noteq> Passed None))
            \<and> get_timepoint_indexes dims in_image (ensure_list timepoints) = Inr ts
            \<and> 1 < length ts \<and> (t_arg = Omitted \<or> t_arg = Passed None) \<longrightarrow>
            resolve_dimensions dims in_image channels z_slices timepoints c_arg z_arg t_arg
              = Inl (ReductionRequired ''timepoints''))
       \<and> (length cs \<le> 1
            \<and> get_zslice_indexes dims in_image (ensure_list z_slices) = Inr zs
            \<and> length zs \<le> 1
            \<and> get_timepoint_indexes dims in_image (ensure_list timepoints) = Inr ts
            \<and> length ts \<le> 1 \<longrightarrow>
            resolve_dimensions dims in_image channels z_slices timepoints c_arg z_arg t_arg
              = Inr (cs, zs, ts))"
proof (intro conjI impI)
  assume "1 < length cs \<and> c_arg = Passed None"
  then show "resolve_dimensions dims in_image channels z_slices timepoints c_arg z_arg t_arg
              = Inl (ReductionRequired ''channels'')"
    using assms by (intro dimensions_channels_required) auto
next
  assume "c_arg = Omitted"
  then show "resolve_dimensions dims in_image channels z_slices timepoints c_arg z_arg t_arg
              = attempt (get_zslice_indexes dims in_image (ensure_list z_slices)) (\<lambda>zs.
                attempt (check_reduction_validity zs (kwarg_value None z_arg) ''z_slices'')
                  (\<lambda>_.
                attempt (get_timepoint_indexes dims in_image (ensure_list timepoints)) (\<lambda>ts.
                attempt (check_reduction_validity ts (kwarg_value None t_arg) ''timepoints'')
                  (\<lambda>_.
                Inr (cs, zs, ts)))))"
    using assms by (rule dimensions_channels_default [rotated])
next
  assume "(length cs \<le> 1 \<or> c_arg \<noteq> Passed None)
            \<and> get_zslice_indexes dims in_image (ensure_list z_slices) = Inr zs
            \<and> 1 < length zs \<and> (z_arg = Omitted \<or> z_arg = Passed None)"
  then show "resolve_dimensions dims in_image channels z_slices timepoints c_arg z_arg t_arg
              = Inl (ReductionRequired ''z_slices'')"
    using assms by (intro dimensions_zslices_required [where cs = cs and zs = zs]) auto
next
  assume "(length cs \<le> 1 \<or> c_arg \<noteq> Passed None)
            \<and> get_zslice_indexes dims in_image (ensure_list z_slices) = Inr zs
            \<and> (length zs \<le> 1 \<or> (z_arg \<noteq> Omitted \<and> z_arg \<noteq> Passed None))
            \<and> get_timepoint_indexes dims in_image (ensure_list timepoints) = Inr ts
            \<and> 1 < length ts \<and> (t_arg = Omitted \<or> t_arg = Passed None)"
  then show "resolve_dimensions dims in_image channels z_slices timepoints c_arg z_arg t_arg
              = Inl (ReductionRequired ''timepoints'')"
    using assms
    by (intro dimensions_timepoints_required [where cs = cs and zs = zs and ts = ts]) auto
next
  assume "length cs \<le> 1
            \<and> get_zslice_indexes dims in_image (ensure_list z_slices) = Inr zs
            \<and> length zs \<le> 1
            \<and> get_timepoint_indexes dims in_image (ensure_list timepoints) = Inr ts
            \<and> length ts \<le> 1"
  then show "resolve_dimensions dims in_image channels z_slices timepoints c_arg z_arg t_arg
              = Inr (cs, zs, ts)"
    using assms by (intro dimensions_single) auto
qed

theorem reduction_required_witness:
  "resolve_dimensions test_dimensions () (VList [VInt 0, VInt 1]) VNone VNone
       (Passed None) Omitted Omitted = Inl (ReductionRequired ''channels'')
   \<and> resolve_dimensions test_dimensions () (VList [VInt 0, VInt 1]) VNone VNone
       Omitted Omitted Omitted = Inr ([0, 1], [2], [0])
   \<and> resolve_dimensions test_dimensions () (VInt 0) (VList [VInt 1, VInt 2]) VNone
       Omitted Omitted Omitted = Inl (ReductionRequired ''z_slices'')
   \<and> resolve_dimensions test_dimensions () (VInt 0) (VInt 1) (VList [VInt 0, VInt 1])
       Omitted Omitted (Passed None) = Inl (ReductionRequired ''timepoints'')
   \<and> resolve_dimensions test_dimensions () (VInt 0) (VInt 1) (VInt 0)
       (Passed None) Omitted Omitted = Inr ([0], [1], [0])"
proof -
  have a: "resolve_dimensions test_dimensions () (VList [VInt 0, VInt 1]) VNone VNone
       (Passed None) Omitted Omitted = Inl (ReductionRequired ''channels'')"
    using reduction_required
      [where dims = test_dimensions and in_image = "()" and channels = "VList [VInt 0, VInt 1]"
         and cs = "[0, 1]" and c_arg = "Passed None" and z_slices = VNone
         and timepoints = VNone and z_arg = Omitted and t_arg = Omitted, THEN conjunct1]
    by (simp add: test_dimensions_def ensure_list_def int_indexes_def)
  have b: "resolve_dimensions test_dimensions () (VList [VInt 0, VInt 1]) VNone VNone
       Omitted Omitted Omitted = Inr ([0, 1], [2], [0])"
    using reduction_required
      [where dims = test_dimensions and in_image = "()" and channels = "VList [VInt 0, VInt 1]"
         and cs = "[0, 1]" and c_arg = Omitted and z_slices = VNone
         and timepoints = VNone and z_arg = Omitted and t_arg = Omitted,
       THEN conjunct2, THEN conjunct1]
    by (simp add: test_dimensions_def ensure_list_def int_indexes_def
          check_reduction_validity_def)
  have c: "resolve_dimensions test_dimensions () (VInt 0) (VList [VInt 1, VInt 2]) VNone
       Omitted Omitted Omitted = Inl (ReductionRequired ''z_slices'')"
    using reduction_required
      [where dims = test_dimensions and in_image = "()" and channels = "VInt 0"
         and cs = "[0]" and c_arg = Omitted and z_slices = "VList [VInt 1, VInt 2]"
         and zs = "[1, 2]" and timepoints = VNone and z_arg = Omitted and t_arg = Omitted,
       THEN conjunct2, THEN conjunct2, THEN conjunct1]
    by (simp add: test_dimensions_def ensure_list_def int_indexes_def)
  have d: "resolve_dimensions test_dimensions () (VInt 0) (VInt 1) (VList [VInt 0, VInt 1])
       Omitted Omitted (Passed None) = Inl (ReductionRequired ''timepoints'')"
    using reduction_required
      [where dims = test_dimensions and in_image = "()" and channels = "VInt 0"
         and cs = "[0]" and c_arg = Omitted and z_slices = "VInt 1" and zs = "[1]"
         and timepoints = "VList [VInt 0, VInt 1]" and ts = "[0, 1]"
         and z_arg = Omitted and t_arg = "Passed None",
       THEN conjunct2, THEN conjunct2, THEN conjunct2, THEN conjunct1]
    by (simp add: test_dimensions_def ensure_list_def int_indexes_def)
  have e: "resolve_dimensions test_dimensions () (VInt 0) (VInt 1) (VInt 0)
       (Passed None) Omitted Omitted = Inr ([0], [1], [0])"
    using reduction_required
      [where dims = test_dimensions and in_image = "()" and channels = "VInt 0"
         and cs = "[0]" and c_arg = "Passed None" and z_slices = "VInt 1" and zs = "[1]"
         and timepoints = "VInt 0" and ts = "[0]"
         and z_arg = Omitted and t_arg = Omitted,
       THEN conjunct2, THEN conjunct2, THEN conjunct2, THEN conjunct2]
    by (simp add: test_dimensions_def ensure_list_def int_indexes_def)
  show ?thesis using a b c d e by simp
qed

section \<open>Properties of the channel parameters\<close>

lemma broadcast_length:
  "length xs \<in> {0, 1, length channels} \<Longrightarrow>
     length (broadcast d channels xs) = length channels"
  by (auto simp: broadcast_def)

lemma check_four:
  "check_array_size_parameters
     [''min_intensities'', ''max_intensities'', ''colormaps'', ''gammas'']
     [(''min_intensities'', VList a), (''max_intensities'', VList b),
      (''colormaps'', VList c), (''filters'', VList f), (''gammas'', VList g)] allowed False
   = (if length a \<notin> set allowed then Inl (ArraySizeMismatch ''min_intensities'')
      else if length b \<notin> set allowed then Inl (ArraySizeMismatch ''max_intensities'')
      else if length c \<notin> set allowed then Inl (ArraySizeMismatch ''colormaps'')
      else if length g \<notin> set allowed then Inl (ArraySizeMismatch ''gammas'')
      else Inr ())"
  by simp

lemma check_filters:
  "check_array_size_parameters [''filters'']
     [(''min_intensities'', VList a), (''max_intensities'', VList b),
      (''colormaps'', VList c), (''filters'', VList f), (''gammas'', VList g)] allowed False
   = (if length f \<notin> set allowed then Inl (ArraySizeMismatch ''filters'') else Inr ())"
  by simp

lemma remove_useless_channels_lengths:
  "remove_useless_channels u cs los his ms gs = (cs', los', his', ms', gs') \<Longrightarrow>
     length los' = length cs' \<and> length his' = length cs' \<and> length ms' = length cs'
     \<and> length gs' = length cs' \<and> length cs' \<le> length cs"
  by (induction u cs los his ms gs arbitrary: cs' los' his' ms' gs'
        rule: remove_useless_channels.induct)
     (auto split: prod.splits if_splits)

lemma remove_useless_channels_zip:
  "remove_useless_channels u cs los his ms gs = (cs', los', his', ms', gs') \<Longrightarrow>
     zip cs' (zip los' (zip his' (zip ms' gs')))
       = filter (\<lambda>(c, lo, hi, m, g). \<not> u c lo hi m g)
           (zip cs (zip los (zip his (zip ms gs))))"
  by (induction u cs los his ms gs arbitrary: cs' los' his' ms' gs'
        rule: remove_useless_channels.induct)
     (auto split: prod.splits if_splits)

lemma filtered_position:
  assumes "ys = filter P xs" and "j < length ys"
  shows "\<exists>i < length xs. ys ! j = xs ! i \<and> P (xs ! i)"
proof -
  have "ys ! j \<in> set ys" using assms(2) by (rule nth_mem)
  then have "ys ! j \<in> set xs" and "P (ys ! j)" using assms(1) by auto
  then show ?thesis by (metis in_set_conv_nth)
qed

lemma channel_parameters_rejects:
  assumes "length (ensure_list min_arg) \<notin> {0, 1, length channels}
           \<or> length (ensure_list max_arg) \<notin> {0, 1, length channels}
           \<or> length (ensure_list (kwarg_value VNone colormaps_arg)) \<notin> {0, 1, length channels}
           \<or> length (ensure_list gammas_arg) \<notin> {0, 1, length channels}"
  shows "\<exists>name. name \<in> set [''min_intensities'', ''max_intensities'', ''colormaps'', ''gammas'']
           \<and> channel_parameters proc in_image channels z_slices timepoints
                min_arg max_arg colormaps_arg filters_arg gammas_arg
              = Inl (ArraySizeMismatch name)"
proof -
  let ?check = "check_array_size_parameters
     [''min_intensities'', ''max_intensities'', ''colormaps'', ''gammas'']
     [(''min_intensities'', VList (ensure_list min_arg)),
      (''max_intensities'', VList (ensure_list max_arg)),
      (''colormaps'', VList (ensure_list (kwarg_value VNone colormaps_arg))),
      (''filters'', VList (ensure_list filters_arg)),
      (''gammas'', VList (ensure_list gammas_arg))] [0, 1, length channels] False"
  have allowed: "set [0, 1, length channels] = {0, 1, length channels}" by simp
  have "\<exists>name. name \<in> set [''min_intensities'', ''max_intensities'', ''colormaps'', ''gammas'']
          \<and> ?check = Inl (ArraySizeMismatch name)"
    using assms unfolding check_four allowed by auto
  then obtain name
    where "name \<in> set [''min_intensities'', ''max_intensities'', ''colormaps'', ''gammas'']"
      and "?check = Inl (ArraySizeMismatch name)" by blast
  moreover from this(2)
  have "channel_parameters proc in_image channels z_slices timepoints
          min_arg max_arg colormaps_arg filters_arg gammas_arg = Inl (ArraySizeMismatch name)"
    by (simp only: channel_parameters_def Let_def attempt.simps)
  ultimately show ?thesis by blast
qed

lemma channel_parameters_accepts:
  assumes "length (ensure_list min_arg) \<in> {0, 1, length channels}"
      and "length (ensure_list max_arg) \<in> {0, 1, length channels}"
      and "length (ensure_list (kwarg_value VNone colormaps_arg)) \<in> {0, 1, length channels}"
      and "length (ensure_list gammas_arg) \<in> {0, 1, length channels}"
  shows "channel_parameters proc in_image channels z_slices timepoints
           min_arg max_arg colormaps_arg filters_arg gammas_arg
         = (case remove_useless_channels (useless_channel proc) channels
                  (broadcast (default_min_intensity proc in_image) channels
                     (ensure_list min_arg))
                  (broadcast (default_max_intensity proc in_image) channels
                     (ensure_list max_arg))
                  (broadcast (default_colormap proc in_image) channels
                     (ensure_list (kwarg_value VNone colormaps_arg)))
                  (broadcast (\<lambda>_. default_gamma proc) channels (ensure_list gammas_arg)) of
              (cs', los', his', ms', gs') \<Rightarrow>
                if length (ensure_list filters_arg) \<notin> {0, 1}
                then Inl (ArraySizeMismatch ''filters'')
                else attempt (parse_filter_ids proc (ensure_list filters_arg)) (\<lambda>fs.
                     Inr (cs', los', his', ms', gs', fs)))"
  using assms
  by (simp only: channel_parameters_def Let_def check_four check_filters
        parse_intensity_bounds_def parse_colormap_ids_def parse_gammas_def)
     (auto split: prod.splits)

lemma pruned_position:
  fixes cs :: "int list" and los his ms gs :: "pyval list"
  assumes len: "length los' = length cs' \<and> length his' = length cs'
             \<and> length ms' = length cs' \<and> length gs' = length cs'"
      and zipped: "zip cs' (zip los' (zip his' (zip ms' gs')))
                     = filter P (zip cs (zip los (zip his (zip ms gs))))"
      and j: "j < length cs'"
  shows "\<exists>i < length cs.
               cs' ! j = cs ! i \<and> los' ! j = los ! i \<and> his' ! j = his ! i
               \<and> ms' ! j = ms ! i \<and> gs' ! j = gs ! i
               \<and> P (cs ! i, los ! i, his ! i, ms ! i, gs ! i)"
proof -
  let ?Z = "zip cs (zip los (zip his (zip ms gs)))"
  let ?Z' = "zip cs' (zip los' (zip his' (zip ms' gs')))"
  have "j < length ?Z'" using j len by simp
  then obtain i where i: "i < length ?Z" and eq: "?Z' ! j = ?Z ! i" and p: "P (?Z ! i)"
    using filtered_position [OF zipped] by blast
  have zj: "?Z' ! j = (cs' ! j, los' ! j, his' ! j, ms' ! j, gs' ! j)"
    using j len by simp
  have zi: "?Z ! i = (cs ! i, los ! i, his ! i, ms ! i, gs ! i)"
    using i by simp
  have ic: "i < length cs" using i by simp
  have "(cs' ! j, los' ! j, his' ! j, ms' ! j, gs' ! j) = (cs ! i, los ! i, his ! i, ms ! i, gs ! i)"
    using eq zj zi by (simp only:)
  then have "cs' ! j = cs ! i \<and> los' ! j = los ! i \<and> his' ! j = his ! i
               \<and> ms' ! j = ms ! i \<and> gs' ! j = gs ! i" by (simp only: prod.inject)
  moreover have "P (cs ! i, los ! i, his ! i, ms ! i, gs ! i)" using p zi by (simp only:)
  ultimately show ?thesis using ic by blast
qed


text \<open>
  C5. The pruning step returns five arrays of one length; read together, position by
  position, they are the entries of the five arrays given, without the positions of the
  useless channels and in the same order; so the entries found at one position after the
  pruning are the entries of one position before it.
\<close>

theorem pruning_keeps_alignment:
  assumes "remove_useless_channels u cs los his ms gs = (cs', los', his', ms', gs')"
  shows "length los' = length cs' \<and> length his' = length cs'
         \<and> length ms' = length cs' \<and> length gs' = length cs'
         \<and> zip cs' (zip los' (zip his' (zip ms' gs')))
             = filter (\<lambda>(c, lo, hi, m, g). \<not> u c lo hi m g)
                 (zip cs (zip los (zip his (zip ms gs))))
         \<and> (\<forall>j < length cs'. \<exists>i < length cs.
               cs' ! j = cs ! i \<and> los' ! j = los ! i \<and> his' ! j = his ! i
               \<and> ms' ! j = ms ! i \<and> gs' ! j = gs ! i
               \<and> \<not> u (cs ! i) (los ! i) (his ! i) (ms ! i) (gs ! i))"
proof -
  have len: "length los' = length cs' \<and> length his' = length cs'
             \<and> length ms' = length cs' \<and> length gs' = length cs'"
    using remove_useless_channels_lengths [OF assms] by simp
  have zipped: "zip cs' (zip los' (zip his' (zip ms' gs')))
             = filter (\<lambda>(c, lo, hi, m, g). \<not> u c lo hi m g)
                 (zip cs (zip los (zip his (zip ms gs))))"
    by (rule remove_useless_channels_zip [OF assms])
  have pos: "\<forall>j < length cs'. \<exists>i < length cs.
               cs' ! j = cs ! i \<and> los' ! j = los ! i \<and> his' ! j = his ! i
               \<and> ms' ! j = ms ! i \<and> gs' ! j = gs ! i
               \<and> \<not> u (cs ! i) (los ! i) (his ! i) (ms ! i) (gs ! i)"
  proof (intro allI impI)
    fix j assume "j < length cs'"
    from pruned_position [OF len zipped this]
    show "\<exists>i < length cs.
               cs' ! j = cs ! i \<and> los' ! j = los ! i \<and> his' ! j = his ! i
               \<and> ms' ! j = ms ! i \<and> gs' ! j = gs ! i
               \<and> \<not> u (cs ! i) (los ! i) (his ! i) (ms ! i) (gs ! i)"
      by (simp only: prod.case)
  qed
  from len zipped pos show ?thesis by (intro conjI) (simp_all only:)
qed

theorem pruning_keeps_alignment_witness:
  "remove_useless_channels (useless_channel test_processing) [0, 1, 2]
     [VInt 0, VInt 5, VInt 9] [VInt 255, VInt 100, VInt 200]
     [VStr ''RED'', VStr ''BLACK'', VStr ''BLUE''] [VInt 1, VInt 2, VInt 3]
   = ([0, 2], [VInt 0, VInt 9], [VInt 255, VInt 200], [VStr ''RED'', VStr ''BLUE''],
      [VInt 1, VInt 3])
   \<and> length [VInt 0, VInt 9] = length [0 :: int, 2]"
proof -
  have r: "remove_useless_channels (useless_channel test_processing) [0, 1, 2]
     [VInt 0, VInt 5, VInt 9] [VInt 255, VInt 100, VInt 200]
     [VStr ''RED'', VStr ''BLACK'', VStr ''BLUE''] [VInt 1, VInt 2, VInt 3]
   = ([0, 2], [VInt 0, VInt 9], [VInt 255, VInt 200], [VStr ''RED'', VStr ''BLUE''],
      [VInt 1, VInt 3])"
    by (simp add: test_processing_def)
  show ?thesis using r pruning_keeps_alignment [OF r, THEN conjunct1] by simp
qed

text \<open>
  C3, as stated, fails for \<open>filters\<close>: with three resolved channels an array of three
  filters, whose length is the channel count, is rejected.
\<close>

theorem filters_of_channel_count_rejected:
  "channel_parameters test_processing () [0, 1, 2] [2] [0]
     VNone VNone Omitted (VList [VStr ''a'', VStr ''b'', VStr ''c'']) VNone
   = Inl (ArraySizeMismatch ''filters'')"
  by (simp add: channel_parameters_def test_processing_def ensure_list_def
        parse_intensity_bounds_def parse_colormap_ids_def parse_gammas_def broadcast_def)

text \<open>
  C3, amended. With \<open>n\<close> resolved channels: if one of \<open>min_intensities\<close>,
  \<open>max_intensities\<close>, \<open>colormaps\<close>, \<open>gammas\<close> has a length outside \<open>{0, 1, n}\<close> the block
  fails with \<open>ArraySizeMismatch\<close> for one of these names; each of the four whose length is
  in \<open>{0, 1, n}\<close> is broadcast to a vector of length exactly \<open>n\<close>; when the four are
  accepted, \<open>filters\<close> is accepted only with a length in \<open>{0, 1}\<close> and any other length,
  \<open>n\<close> included, fails with \<open>ArraySizeMismatch\<close>; and when all is accepted the block returns
  the four vectors pruned together with the channels, of one length that is at most \<open>n\<close>.
\<close>

theorem channel_parameter_arity:
  "(length (ensure_list min_arg) \<notin> {0, 1, length channels}
      \<or> length (ensure_list max_arg) \<notin> {0, 1, length channels}
      \<or> length (ensure_list (kwarg_value VNone colormaps_arg)) \<notin> {0, 1, length channels}
      \<or> length (ensure_list gammas_arg) \<notin> {0, 1, length channels} \<longrightarrow>
    (\<exists>name. name \<in> set [''min_intensities'', ''max_intensities'', ''colormaps'', ''gammas'']
       \<and> channel_parameters proc in_image channels z_slices timepoints
            min_arg max_arg colormaps_arg filters_arg gammas_arg
          = Inl (ArraySizeMismatch name)))
   \<and> (length (ensure_list min_arg) \<in> {0, 1, length channels} \<longrightarrow>
        length (fst (parse_intensity_bounds proc in_image channels z_slices timepoints
                       (ensure_list min_arg) (ensure_list max_arg))) = length channels)
   \<and> (length (ensure_list max_arg) \<in> {0, 1, length channels} \<longrightarrow>
        length (snd (parse_intensity_bounds proc in_image channels z_slices timepoints
                       (ensure_list min_arg) (ensure_list max_arg))) = length channels)
   \<and> (length (ensure_list (kwarg_value VNone colormaps_arg)) \<in> {0, 1, length channels} \<longrightarrow>
        length (parse_colormap_ids proc in_image
                  (ensure_list (kwarg_value VNone colormaps_arg)) channels) = length channels)
   \<and> (length (ensure_list gammas_arg) \<in> {0, 1, length channels} \<longrightarrow>
        length (parse_gammas proc channels (ensure_list gammas_arg)) = length channels)
   \<and> (length (ensure_list min_arg) \<in> {0, 1, length channels}
        \<and> length (ensure_list max_arg) \<in> {0, 1, length channels}
        \<and> length (ensure_list (kwarg_value VNone colormaps_arg)) \<in> {0, 1, length channels}
        \<and> length (ensure_list gammas_arg) \<in> {0, 1, length channels} \<longrightarrow>
        (length (ensure_list filters_arg) \<notin> {0, 1} \<longrightarrow>
           channel_parameters proc in_image channels z_slices timepoints
             min_arg max_arg colormaps_arg filters_arg gammas_arg
           = Inl (ArraySizeMismatch ''filters''))
        \<and> (length (ensure_list filters_arg) \<in> {0, 1}
             \<and> parse_filter_ids proc (ensure_list filters_arg) = Inr fs \<longrightarrow>
           (\<exists>cs' los' his' ms' gs'.
              channel_parameters proc in_image channels z_slices timepoints
                min_arg max_arg colormaps_arg filters_arg gammas_arg
              = Inr (cs', los', his', ms', gs', fs)
              \<and> length los' = length cs' \<and> length his' = length cs'
              \<and> length ms' = length cs' \<and> length gs' = length cs'
              \<and> length cs' \<le> length channels)))"
proof (intro conjI impI)
  assume "length (ensure_list min_arg) \<notin> {0, 1, length channels}
      \<or> length (ensure_list max_arg) \<notin> {0, 1, length channels}
      \<or> length (ensure_list (kwarg_value VNone colormaps_arg)) \<notin> {0, 1, length channels}
      \<or> length (ensure_list gammas_arg) \<notin> {0, 1, length channels}"
  then show "\<exists>name. name \<in> set [''min_intensities'', ''max_intensities'', ''colormaps'',
                                  ''gammas'']
       \<and> channel_parameters proc in_image channels z_slices timepoints
            min_arg max_arg colormaps_arg filters_arg gammas_arg
          = Inl (ArraySizeMismatch name)"
    by (rule channel_parameters_rejects)
next
  assume "length (ensure_list min_arg) \<in> {0, 1, length channels}"
  then show "length (fst (parse_intensity_bounds proc in_image channels z_slices timepoints
                       (ensure_list min_arg) (ensure_list max_arg))) = length channels"
    by (simp only: parse_intensity_bounds_def fst_conv broadcast_length)
next
  assume "length (ensure_list max_arg) \<in> {0, 1, length channels}"
  then show "length (snd (parse_intensity_bounds proc in_image channels z_slices timepoints
                       (ensure_list min_arg) (ensure_list max_arg))) = length channels"
    by (simp only: parse_intensity_bounds_def snd_conv broadcast_length)
next
  assume "length (ensure_list (kwarg_value VNone colormaps_arg)) \<in> {0, 1, length channels}"
  then show "length (parse_colormap_ids proc in_image
                  (ensure_list (kwarg_value VNone colormaps_arg)) channels) = length channels"
    by (simp only: parse_colormap_ids_def broadcast_length)
next
  assume "length (ensure_list gammas_arg) \<in> {0, 1, length channels}"
  then show "length (parse_gammas proc channels (ensure_list gammas_arg)) = length channels"
    by (simp only: parse_gammas_def broadcast_length)
next
  assume ok: "length (ensure_list min_arg) \<in> {0, 1, length channels}
        \<and> length (ensure_list max_arg) \<in> {0, 1, length channels}
        \<and> length (ensure_list (kwarg_value VNone colormaps_arg)) \<in> {0, 1, length channels}
        \<and> length (ensure_list gammas_arg) \<in> {0, 1, length channels}"
    and bad: "length (ensure_list filters_arg) \<notin> {0, 1}"
  show "channel_parameters proc in_image channels z_slices timepoints
             min_arg max_arg colormaps_arg filters_arg gammas_arg
           = Inl (ArraySizeMismatch ''filters'')"
    using ok bad by (simp only: channel_parameters_accepts) (simp split: prod.splits)
next
  assume ok: "length (ensure_list min_arg) \<in> {0, 1, length channels}
        \<and> length (ensure_list max_arg) \<in> {0, 1, length channels}
        \<and> length (ensure_list (kwarg_value VNone colormaps_arg)) \<in> {0, 1, length channels}
        \<and> length (ensure_list gammas_arg) \<in> {0, 1, length channels}"
    and good: "length (ensure_list filters_arg) \<in> {0, 1}
             \<and> parse_filter_ids proc (ensure_list filters_arg) = Inr fs"
  obtain cs' los' his' ms' gs' where
    r: "remove_useless_channels (useless_channel proc) channels
                  (broadcast (default_min_intensity proc in_image) channels
                     (ensure_list min_arg))
                  (broadcast (default_max_intensity proc in_image) channels
                     (ensure_list max_arg))
                  (broadcast (default_colormap proc in_image) channels
                     (ensure_list (kwarg_value VNone colormaps_arg)))
                  (broadcast (\<lambda>_. default_gamma proc) channels (ensure_list gammas_arg))
        = (cs', los', his', ms', gs')"
    by (metis prod_cases5)
  have "channel_parameters proc in_image channels z_slices timepoints
                min_arg max_arg colormaps_arg filters_arg gammas_arg
              = Inr (cs', los', his', ms', gs', fs)"
    using ok good by (simp only: channel_parameters_accepts r) simp
  then show "\<exists>cs' los' his' ms' gs'.
              channel_parameters proc in_image channels z_slices timepoints
                min_arg max_arg colormaps_arg filters_arg gammas_arg
              = Inr (cs', los', his', ms', gs', fs)
              \<and> length los' = length cs' \<and> length his' = length cs'
              \<and> length ms' = length cs' \<and> length gs' = length cs'
              \<and> length cs' \<le> length channels"
    using remove_useless_channels_lengths [OF r] by blast
qed

theorem channel_parameter_arity_witness:
  "channel_parameters test_processing () [0, 1, 2] [2] [0]
     VNone (VInt 10) Omitted VNone VNone
     = Inr ([0, 1, 2], [VInt 0, VInt 0, VInt 0], [VInt 10, VInt 10, VInt 10],
            [VStr ''DEFAULT'', VStr ''DEFAULT'', VStr ''DEFAULT''],
            [VInt 1, VInt 1, VInt 1], [])
   \<and> channel_parameters test_processing () [0, 1, 2] [2] [0]
     (VList [VInt 1, VInt 2]) (VInt 10) Omitted VNone VNone
     = Inl (ArraySizeMismatch ''min_intensities'')
   \<and> channel_parameters test_processing () [0, 1, 2] [2] [0]
     VNone (VInt 10) Omitted (VList [VStr ''a'', VStr ''b'']) VNone
     = Inl (ArraySizeMismatch ''filters'')"
proof -
  note arity = channel_parameter_arity
      [where proc = test_processing and in_image = "()" and channels = "[0, 1, 2]"
         and z_slices = "[2]" and timepoints = "[0]" and max_arg = "VInt 10"
         and colormaps_arg = Omitted and gammas_arg = VNone]
  have a: "channel_parameters test_processing () [0, 1, 2] [2] [0]
     VNone (VInt 10) Omitted VNone VNone
     = Inr ([0, 1, 2], [VInt 0, VInt 0, VInt 0], [VInt 10, VInt 10, VInt 10],
            [VStr ''DEFAULT'', VStr ''DEFAULT'', VStr ''DEFAULT''],
            [VInt 1, VInt 1, VInt 1], [])"
    using arity [where min_arg = VNone and filters_arg = VNone and fs = "[]"]
    by (simp add: channel_parameters_def test_processing_def ensure_list_def
          parse_intensity_bounds_def parse_colormap_ids_def parse_gammas_def broadcast_def)
  have b: "channel_parameters test_processing () [0, 1, 2] [2] [0]
     (VList [VInt 1, VInt 2]) (VInt 10) Omitted VNone VNone
     = Inl (ArraySizeMismatch ''min_intensities'')"
    using arity [where min_arg = "VList [VInt 1, VInt 2]" and filters_arg = VNone,
                 THEN conjunct1]
    by (simp add: channel_parameters_def test_processing_def ensure_list_def)
  have c: "channel_parameters test_processing () [0, 1, 2] [2] [0]
     VNone (VInt 10) Omitted (VList [VStr ''a'', VStr ''b'']) VNone
     = Inl (ArraySizeMismatch ''filters'')"
    using arity [where min_arg = VNone and filters_arg = "VList [VStr ''a'', VStr ''b'']"]
    by (simp add: channel_parameters_def test_processing_def ensure_list_def
          parse_intensity_bounds_def parse_colormap_ids_def parse_gammas_def broadcast_def)
  show ?thesis using a b c by simp
qed

section \<open>Properties of the annotations and of the response\<close>

lemma style_defaults_drawing:
  assumes "subscript annotation_style (KStr ''mode'') = Inr (VMode DRAWING)"
      and "subscript annotation_style (KStr ''point_envelope_length'') = Inr pel"
  shows "style_defaults annotation_style
           = Inr ([''fill_color''],
                  [(KStr ''stroke_color'', VColor RED), (KStr ''stroke_width'', VInt 1)],
                  pel)"
  using assms by (simp add: style_defaults_def)

lemma style_defaults_other:
  assumes "subscript annotation_style (KStr ''mode'') = Inr mode" and "mode \<noteq> VMode DRAWING"
  shows "style_defaults annotation_style
           = Inr ([''stroke_width'', ''stroke_color''],
                  [(KStr ''fill_color'', VColor WHITE)],
                  VNone)"
  using assms by (simp add: style_defaults_def)

lemma prepare_raw_annotations:
  assumes "truthy v" and "truthy annotation_style"
      and "style_defaults annotation_style = Inr (ignore_fields, default_fields, pel)"
  shows "prepare_annotations api in_image (RawAnnotations v) annotation_style hdrs
           = attempt (parse_annotations api (ensure_list v) ignore_fields default_fields pel
                        (annot_origin hdrs) (im_height api in_image))
               (\<lambda>parsed. Inr (ParsedAnnotations parsed))"
  using assms by (simp add: prepare_annotations_def)

text \<open>
  C7. For a style whose mode is \<open>DRAWING\<close>: the field \<open>fill_color\<close> is ignored, the
  defaults are the stroke color red and the stroke width 1, and the point envelope length
  is the one of the style. For a style whose mode is \<open>MASK\<close>: the fields \<open>stroke_width\<close>
  and \<open>stroke_color\<close> are ignored, the default is the fill color white, and the point
  envelope length is \<open>None\<close>. These are the arguments with which raw annotations that are
  supplied with a style are parsed.
\<close>

theorem style_defaults_by_mode:
  "(subscript annotation_style (KStr ''mode'') = Inr (VMode DRAWING)
      \<and> subscript annotation_style (KStr ''point_envelope_length'') = Inr pel \<longrightarrow>
    style_defaults annotation_style
      = Inr ([''fill_color''],
             [(KStr ''stroke_color'', VColor RED), (KStr ''stroke_width'', VInt 1)],
             pel)
    \<and> (truthy v \<and> truthy annotation_style \<longrightarrow>
        prepare_annotations api in_image (RawAnnotations v) annotation_style hdrs
          = attempt (parse_annotations api (ensure_list v) [''fill_color'']
                       [(KStr ''stroke_color'', VColor RED), (KStr ''stroke_width'', VInt 1)]
                       pel (annot_origin hdrs) (im_height api in_image))
              (\<lambda>parsed. Inr (ParsedAnnotations parsed))))
   \<and> (subscript annotation_style (KStr ''mode'') = Inr (VMode MASK) \<longrightarrow>
    style_defaults annotation_style
      = Inr ([''stroke_width'', ''stroke_color''],
             [(KStr ''fill_color'', VColor WHITE)],
             VNone)
    \<and> (truthy v \<and> truthy annotation_style \<longrightarrow>
        prepare_annotations api in_image (RawAnnotations v) annotation_style hdrs
          = attempt (parse_annotations api (ensure_list v) [''stroke_width'', ''stroke_color'']
                       [(KStr ''fill_color'', VColor WHITE)]
                       VNone (annot_origin hdrs) (im_height api in_image))
              (\<lambda>parsed. Inr (ParsedAnnotations parsed))))"
proof (intro conjI impI)
  assume a: "subscript annotation_style (KStr ''mode'') = Inr (VMode DRAWING)
      \<and> subscript annotation_style (KStr ''point_envelope_length'') = Inr pel"
  then show d: "style_defaults annotation_style
      = Inr ([''fill_color''],
             [(KStr ''stroke_color'', VColor RED), (KStr ''stroke_width'', VInt 1)],
             pel)"
    by (intro style_defaults_drawing) simp_all
  assume "truthy v \<and> truthy annotation_style"
  then show "prepare_annotations api in_image (RawAnnotations v) annotation_style hdrs
          = attempt (parse_annotations api (ensure_list v) [''fill_color'']
                       [(KStr ''stroke_color'', VColor RED), (KStr ''stroke_width'', VInt 1)]
                       pel (annot_origin hdrs) (im_height api in_image))
              (\<lambda>parsed. Inr (ParsedAnnotations parsed))"
    using d by (intro prepare_raw_annotations) simp_all
next
  assume a: "subscript annotation_style (KStr ''mode'') = Inr (VMode MASK)"
  then show d: "style_defaults annotation_style
      = Inr ([''stroke_width'', ''stroke_color''],
             [(KStr ''fill_color'', VColor WHITE)],
             VNone)"
    by (intro style_defaults_other [where mode = "VMode MASK"]) simp_all
  assume "truthy v \<and> truthy annotation_style"
  then show "prepare_annotations api in_image (RawAnnotations v) annotation_style hdrs
          = attempt (parse_annotations api (ensure_list v) [''stroke_width'', ''stroke_color'']
                       [(KStr ''fill_color'', VColor WHITE)]
                       VNone (annot_origin hdrs) (im_height api in_image))
              (\<lambda>parsed. Inr (ParsedAnnotations parsed))"
    using d by (intro prepare_raw_annotations) simp_all
qed

theorem style_defaults_by_mode_witness:
  "prepare_annotations test_annotation_api ()
     (RawAnnotations (VList [VDict [(KStr ''geometry'', VStr ''POINT(10 10)'')]]))
     (VDict [(KStr ''mode'', VMode DRAWING), (KStr ''point_envelope_length'', VInt 3)])
     test_headers
     = attempt (parse_annotations test_annotation_api
                  [VDict [(KStr ''geometry'', VStr ''POINT(10 10)'')]]
                  [''fill_color'']
                  [(KStr ''stroke_color'', VColor RED), (KStr ''stroke_width'', VInt 1)]
                  (VInt 3) (VStr ''LEFT_TOP'') 1024)
         (\<lambda>parsed. Inr (ParsedAnnotations parsed))
   \<and> prepare_annotations test_annotation_api ()
     (RawAnnotations (VList [VDict [(KStr ''geometry'', VStr ''POINT(10 10)'')]]))
     (VDict [(KStr ''mode'', VMode MASK), (KStr ''point_envelope_length'', VInt 3)])
     test_headers
     = attempt (parse_annotations test_annotation_api
                  [VDict [(KStr ''geometry'', VStr ''POINT(10 10)'')]]
                  [''stroke_width'', ''stroke_color'']
                  [(KStr ''fill_color'', VColor WHITE)]
                  VNone (VStr ''LEFT_TOP'') 1024)
         (\<lambda>parsed. Inr (ParsedAnnotations parsed))"
proof -
  have a: "prepare_annotations test_annotation_api ()
     (RawAnnotations (VList [VDict [(KStr ''geometry'', VStr ''POINT(10 10)'')]]))
     (VDict [(KStr ''mode'', VMode DRAWING), (KStr ''point_envelope_length'', VInt 3)])
     test_headers
     = attempt (parse_annotations test_annotation_api
                  [VDict [(KStr ''geometry'', VStr ''POINT(10 10)'')]]
                  [''fill_color'']
                  [(KStr ''stroke_color'', VColor RED), (KStr ''stroke_width'', VInt 1)]
                  (VInt 3) (VStr ''LEFT_TOP'') 1024)
         (\<lambda>parsed. Inr (ParsedAnnotations parsed))"
    using style_defaults_by_mode
      [where annotation_style = "VDict [(KStr ''mode'', VMode DRAWING),
                                        (KStr ''point_envelope_length'', VInt 3)]"
         and pel = "VInt 3" and api = test_annotation_api and in_image = "()"
         and hdrs = test_headers
         and v = "VList [VDict [(KStr ''geometry'', VStr ''POINT(10 10)'')]]",
       THEN conjunct1]
    by (simp add: subscript_def getitem_def ensure_list_def test_headers_def
          test_annotation_api_def)
  have b: "prepare_annotations test_annotation_api ()
     (RawAnnotations (VList [VDict [(KStr ''geometry'', VStr ''POINT(10 10)'')]]))
     (VDict [(KStr ''mode'', VMode MASK), (KStr ''point_envelope_length'', VInt 3)])
     test_headers
     = attempt (parse_annotations test_annotation_api
                  [VDict [(KStr ''geometry'', VStr ''POINT(10 10)'')]]
                  [''stroke_width'', ''stroke_color'']
                  [(KStr ''fill_color'', VColor WHITE)]
                  VNone (VStr ''LEFT_TOP'') 1024)
         (\<lambda>parsed. Inr (ParsedAnnotations parsed))"
    using style_defaults_by_mode
      [where annotation_style = "VDict [(KStr ''mode'', VMode MASK),
                                        (KStr ''point_envelope_length'', VInt 3)]"
         and api = test_annotation_api and in_image = "()"
         and hdrs = test_headers
         and v = "VList [VDict [(KStr ''geometry'', VStr ''POINT(10 10)'')]]",
       THEN conjunct2]
    by (simp add: subscript_def getitem_def ensure_list_def test_headers_def
          test_annotation_api_def)
  show ?thesis using a b by simp
qed

lemma is_mask_mask_response: "is_mask (mask_response r annotations affine)"
  by (simp add: mask_response_def)

lemma is_mask_window_response: "\<not> is_mask (window_response r annotations affine style)"
  by (simp add: window_response_def)

lemma make_window_mask:
  assumes "annotations_truthy api a" and "truthy style"
      and "subscript style (KStr ''mode'') = Inr (VMode MASK)"
  shows "make_window api r a affine style = Inr (mask_response r a affine)"
  using assms by (simp add: make_window_def)

lemma make_window_window:
  assumes "\<not> annotations_truthy api a \<or> \<not> truthy style
           \<or> (\<exists>mode. subscript style (KStr ''mode'') = Inr mode \<and> mode \<noteq> VMode MASK)"
  shows "make_window api r a affine style = Inr (window_response r a affine style)"
  using assms by (auto simp: make_window_def)

lemma make_window_is_mask:
  assumes "make_window api r a affine style = Inr w"
  shows "is_mask w \<longleftrightarrow> annotations_truthy api a \<and> truthy style
                        \<and> subscript style (KStr ''mode'') = Inr (VMode MASK)"
proof (cases "annotations_truthy api a \<and> truthy style")
  case False
  then have "w = window_response r a affine style"
    using assms by (auto simp: make_window_def)
  then show ?thesis using False is_mask_window_response by auto
next
  case True
  then obtain mode where m: "subscript style (KStr ''mode'') = Inr mode"
    using assms by (cases "subscript style (KStr ''mode'')") (auto simp: make_window_def)
  show ?thesis
  proof (cases "mode = VMode MASK")
    case True
    then have "w = mask_response r a affine"
      using assms m \<open>annotations_truthy api a \<and> truthy style\<close> by (simp add: make_window_def)
    then show ?thesis
      using True m \<open>annotations_truthy api a \<and> truthy style\<close> is_mask_mask_response by simp
  next
    case False
    then have "w = window_response r a affine style"
      using assms m \<open>annotations_truthy api a \<and> truthy style\<close> by (simp add: make_window_def)
    then show ?thesis using False m is_mask_window_response by simp
  qed
qed

lemma attempt_Inr_iff:
  "attempt m f = Inr y \<longleftrightarrow> (\<exists>x. m = Inr x \<and> f x = Inr y)"
  by (cases m) auto

lemma annotated_window_steps:
  assumes "annotated_window api r a style hdrs = Inr w"
  obtains a' affine where "prepare_annotations api (r_in_image r) a style hdrs = Inr a'"
    and "crop_affine api a' (r_region r) (r_out_width r, r_out_height r) = Inr affine"
    and "make_window api r a' affine style = Inr w"
  using assms unfolding annotated_window_def attempt_Inr_iff by blast

lemma prepare_annotations_keeps_truth:
  assumes "prepare_annotations api in_image a style hdrs = Inr a'"
      and "annotations_truthy api a'"
  shows "annotations_truthy api a"
proof (cases a)
  case (ParsedAnnotations p)
  then show ?thesis using assms by (simp add: prepare_annotations_def)
next
  case (RawAnnotations v)
  show ?thesis
  proof (cases "truthy v \<and> truthy style")
    case True
    then show ?thesis using RawAnnotations by (simp add: annotations_truthy_def)
  next
    case False
    then have "a' = RawAnnotations v"
      using assms(1) RawAnnotations by (auto simp: prepare_annotations_def)
    then show ?thesis using assms(2) RawAnnotations by simp
  qed
qed

lemma prepare_annotations_truth_kept:
  assumes "prepare_annotations api in_image a style hdrs = Inr a'"
      and "annotations_truthy api a" and "truthy style"
      and parser: "\<forall>xs ig df pel og h q.
             parse_annotations api xs ig df pel og h = Inr q \<longrightarrow> annotations_bool api q"
  shows "annotations_truthy api a'"
proof (cases a)
  case (ParsedAnnotations p)
  then show ?thesis using assms(1,2) by (simp add: prepare_annotations_def)
next
  case (RawAnnotations v)
  then have tv: "truthy v" using assms(2) by (simp add: annotations_truthy_def)
  obtain ig df pel where sd: "style_defaults style = Inr (ig, df, pel)"
    using assms(1) RawAnnotations tv assms(3)
    by (cases "style_defaults style") (auto simp: prepare_annotations_def)
  have "attempt (parse_annotations api (ensure_list v) ig df pel
                   (annot_origin hdrs) (im_height api in_image))
          (\<lambda>parsed. Inr (ParsedAnnotations parsed)) = Inr a'"
    using assms(1) RawAnnotations tv assms(3) sd by (simp add: prepare_annotations_def)
  then obtain q where q: "parse_annotations api (ensure_list v) ig df pel
                   (annot_origin hdrs) (im_height api in_image) = Inr q"
     and a': "a' = ParsedAnnotations q"
    unfolding attempt_Inr_iff by auto
  have "annotations_bool api q" using parser q by blast
  then show ?thesis using a' by (simp add: annotations_truthy_def)
qed

lemma annotated_window_mask_only:
  assumes "annotated_window api r a style hdrs = Inr w" and "is_mask w"
  shows "annotations_truthy api a \<and> truthy style
         \<and> subscript style (KStr ''mode'') = Inr (VMode MASK)"
proof -
  obtain a' affine where p: "prepare_annotations api (r_in_image r) a style hdrs = Inr a'"
    and m: "make_window api r a' affine style = Inr w"
    using assms(1) by (rule annotated_window_steps)
  have "annotations_truthy api a' \<and> truthy style
         \<and> subscript style (KStr ''mode'') = Inr (VMode MASK)"
    using make_window_is_mask [OF m] assms(2) by simp
  then show ?thesis using prepare_annotations_keeps_truth [OF p] by simp
qed

lemma annotated_window_mask:
  assumes "annotated_window api r a style hdrs = Inr w"
      and "annotations_truthy api a" and "truthy style"
      and "subscript style (KStr ''mode'') = Inr (VMode MASK)"
      and "\<forall>xs ig df pel og h q.
             parse_annotations api xs ig df pel og h = Inr q \<longrightarrow> annotations_bool api q"
  shows "is_mask w"
proof -
  obtain a' affine where p: "prepare_annotations api (r_in_image r) a style hdrs = Inr a'"
    and m: "make_window api r a' affine style = Inr w"
    using assms(1) by (rule annotated_window_steps)
  have "annotations_truthy api a'"
    using prepare_annotations_truth_kept [OF p assms(2,3,5)] .
  then show ?thesis using make_window_is_mask [OF m] assms(3,4) by simp
qed

lemma annotated_window_mask_produced:
  assumes "truthy v" and "truthy style"
      and "subscript style (KStr ''mode'') = Inr (VMode MASK)"
      and "parse_annotations api (ensure_list v) [''stroke_width'', ''stroke_color'']
             [(KStr ''fill_color'', VColor WHITE)] VNone
             (annot_origin hdrs) (im_height api (r_in_image r)) = Inr q"
      and "annotations_bool api q"
      and "annotation_crop_affine_matrix api (annotations_region api q) (r_region r)
             (r_out_width r) (r_out_height r) = Inr m"
  shows "annotated_window api r (RawAnnotations v) style hdrs
           = Inr (mask_response r (ParsedAnnotations q) (Some m))"
proof -
  have sd: "style_defaults style = Inr ([''stroke_width'', ''stroke_color''],
             [(KStr ''fill_color'', VColor WHITE)], VNone)"
    using assms(3) by (intro style_defaults_other [where mode = "VMode MASK"]) simp_all
  have p: "prepare_annotations api (r_in_image r) (RawAnnotations v) style hdrs
             = Inr (ParsedAnnotations q)"
    using prepare_raw_annotations
            [OF assms(1,2) sd, where api = api and in_image = "r_in_image r" and hdrs = hdrs]
          assms(4)
    by simp
  have t: "annotations_truthy api (ParsedAnnotations q)"
    using assms(5) by (simp add: annotations_truthy_def)
  have c: "crop_affine api (ParsedAnnotations q) (r_region r) (r_out_width r, r_out_height r)
             = Inr (Some m)"
    using t assms(6) by (simp add: crop_affine_def)
  have w: "make_window api r (ParsedAnnotations q) (Some m) style
             = Inr (mask_response r (ParsedAnnotations q) (Some m))"
    using t assms(2,3) by (rule make_window_mask)
  show ?thesis using p c w by (simp add: annotated_window_def)
qed

text \<open>
  The choice of lines 212 to 228 and the responses of lines 192 to 228. At the choice
  the mask response is built when the annotations are true, the style is true and its
  mode is \<open>MASK\<close>, and the window response is built when the annotations or the style are
  false or the mode is another one. A response produced by lines 192 to 228 is a mask
  response only if annotations are supplied with a style of mode \<open>MASK\<close>, and it is one
  whenever they are (the parser giving true annotations); for supplied raw annotations
  with a style of mode \<open>MASK\<close> the mask response is produced as soon as the parser and
  the affine matrix succeed.
\<close>

lemma mask_response_in_mask_mode:
  "(annotations_truthy api a \<and> truthy style
      \<and> subscript style (KStr ''mode'') = Inr (VMode MASK) \<longrightarrow>
    make_window api r a affine style = Inr (mask_response r a affine))
   \<and> (\<not> annotations_truthy api a \<or> \<not> truthy style
        \<or> (\<exists>mode. subscript style (KStr ''mode'') = Inr mode \<and> mode \<noteq> VMode MASK) \<longrightarrow>
      make_window api r a affine style = Inr (window_response r a affine style))
   \<and> (annotated_window api r a style hdrs = Inr w \<and> is_mask w \<longrightarrow>
      annotations_truthy api a \<and> truthy style
      \<and> subscript style (KStr ''mode'') = Inr (VMode MASK))
   \<and> (annotated_window api r a style hdrs = Inr w
        \<and> annotations_truthy api a \<and> truthy style
        \<and> subscript style (KStr ''mode'') = Inr (VMode MASK)
        \<and> (\<forall>xs ig df pel og h q.
             parse_annotations api xs ig df pel og h = Inr q \<longrightarrow> annotations_bool api q)
        \<longrightarrow> is_mask w)
   \<and> (truthy v \<and> truthy style
        \<and> subscript style (KStr ''mode'') = Inr (VMode MASK)
        \<and> parse_annotations api (ensure_list v) [''stroke_width'', ''stroke_color'']
             [(KStr ''fill_color'', VColor WHITE)] VNone
             (annot_origin hdrs) (im_height api (r_in_image r)) = Inr q
        \<and> annotations_bool api q
        \<and> annotation_crop_affine_matrix api (annotations_region api q) (r_region r)
             (r_out_width r) (r_out_height r) = Inr m \<longrightarrow>
      annotated_window api r (RawAnnotations v) style hdrs
        = Inr (mask_response r (ParsedAnnotations q) (Some m)))"
proof (intro conjI impI)
  assume "annotations_truthy api a \<and> truthy style
      \<and> subscript style (KStr ''mode'') = Inr (VMode MASK)"
  then show "make_window api r a affine style = Inr (mask_response r a affine)"
    by (intro make_window_mask) simp_all
next
  assume "\<not> annotations_truthy api a \<or> \<not> truthy style
        \<or> (\<exists>mode. subscript style (KStr ''mode'') = Inr mode \<and> mode \<noteq> VMode MASK)"
  then show "make_window api r a affine style = Inr (window_response r a affine style)"
    by (rule make_window_window)
next
  assume h: "annotated_window api r a style hdrs = Inr w \<and> is_mask w"
  show "annotations_truthy api a"
    using annotated_window_mask_only [of api r a style hdrs w] h by simp
  show "truthy style"
    using annotated_window_mask_only [of api r a style hdrs w] h by simp
  show "subscript style (KStr ''mode'') = Inr (VMode MASK)"
    using annotated_window_mask_only [of api r a style hdrs w] h by simp
next
  assume "annotated_window api r a style hdrs = Inr w
        \<and> annotations_truthy api a \<and> truthy style
        \<and> subscript style (KStr ''mode'') = Inr (VMode MASK)
        \<and> (\<forall>xs ig df pel og h q.
             parse_annotations api xs ig df pel og h = Inr q \<longrightarrow> annotations_bool api q)"
  then show "is_mask w"
    by (intro annotated_window_mask [of api r a style hdrs w]) simp_all
next
  assume "truthy v \<and> truthy style
        \<and> subscript style (KStr ''mode'') = Inr (VMode MASK)
        \<and> parse_annotations api (ensure_list v) [''stroke_width'', ''stroke_color'']
             [(KStr ''fill_color'', VColor WHITE)] VNone
             (annot_origin hdrs) (im_height api (r_in_image r)) = Inr q
        \<and> annotations_bool api q
        \<and> annotation_crop_affine_matrix api (annotations_region api q) (r_region r)
             (r_out_width r) (r_out_height r) = Inr m"
  then show "annotated_window api r (RawAnnotations v) style hdrs
        = Inr (mask_response r (ParsedAnnotations q) (Some m))"
    by (intro annotated_window_mask_produced) simp_all
qed

lemma mask_response_in_mask_mode_example:
  "annotated_window test_annotation_api test_resolved
     (RawAnnotations (VList [VDict [(KStr ''geometry'', VStr ''POINT(10 10)'')]]))
     (VDict [(KStr ''mode'', VMode MASK), (KStr ''point_envelope_length'', VNone)])
     test_headers
     = Inr (mask_response test_resolved
              (ParsedAnnotations [VDict [(KStr ''geometry'', VStr ''POINT(10 10)'')]])
              (Some ()))
   \<and> make_window test_annotation_api test_resolved
       (ParsedAnnotations [VDict [(KStr ''geometry'', VStr ''POINT(10 10)'')]]) (Some ())
       (VDict [(KStr ''mode'', VMode DRAWING), (KStr ''point_envelope_length'', VNone)])
     = Inr (window_response test_resolved
              (ParsedAnnotations [VDict [(KStr ''geometry'', VStr ''POINT(10 10)'')]])
              (Some ())
              (VDict [(KStr ''mode'', VMode DRAWING), (KStr ''point_envelope_length'', VNone)]))
   \<and> make_window test_annotation_api test_resolved (RawAnnotations VNone) None
       (VDict [(KStr ''mode'', VMode MASK), (KStr ''point_envelope_length'', VNone)])
     = Inr (window_response test_resolved (RawAnnotations VNone) None
              (VDict [(KStr ''mode'', VMode MASK), (KStr ''point_envelope_length'', VNone)]))"
proof -
  have a: "annotated_window test_annotation_api test_resolved
     (RawAnnotations (VList [VDict [(KStr ''geometry'', VStr ''POINT(10 10)'')]]))
     (VDict [(KStr ''mode'', VMode MASK), (KStr ''point_envelope_length'', VNone)])
     test_headers
     = Inr (mask_response test_resolved
              (ParsedAnnotations [VDict [(KStr ''geometry'', VStr ''POINT(10 10)'')]])
              (Some ()))"
    using mask_response_in_mask_mode
      [where api = test_annotation_api and r = test_resolved and hdrs = test_headers
         and style = "VDict [(KStr ''mode'', VMode MASK),
                             (KStr ''point_envelope_length'', VNone)]"
         and v = "VList [VDict [(KStr ''geometry'', VStr ''POINT(10 10)'')]]"
         and q = "[VDict [(KStr ''geometry'', VStr ''POINT(10 10)'')]]" and m = "()",
       THEN conjunct2, THEN conjunct2, THEN conjunct2, THEN conjunct2]
    by (simp add: subscript_def getitem_def ensure_list_def test_annotation_api_def)
  have b: "make_window test_annotation_api test_resolved
       (ParsedAnnotations [VDict [(KStr ''geometry'', VStr ''POINT(10 10)'')]]) (Some ())
       (VDict [(KStr ''mode'', VMode DRAWING), (KStr ''point_envelope_length'', VNone)])
     = Inr (window_response test_resolved
              (ParsedAnnotations [VDict [(KStr ''geometry'', VStr ''POINT(10 10)'')]])
              (Some ())
              (VDict [(KStr ''mode'', VMode DRAWING), (KStr ''point_envelope_length'', VNone)]))"
    using mask_response_in_mask_mode
      [where api = test_annotation_api and r = test_resolved
         and style = "VDict [(KStr ''mode'', VMode DRAWING),
                             (KStr ''point_envelope_length'', VNone)]"
         and a = "ParsedAnnotations [VDict [(KStr ''geometry'', VStr ''POINT(10 10)'')]]"
         and affine = "Some ()",
       THEN conjunct2, THEN conjunct1]
    by (simp add: subscript_def getitem_def)
  have c: "make_window test_annotation_api test_resolved (RawAnnotations VNone) None
       (VDict [(KStr ''mode'', VMode MASK), (KStr ''point_envelope_length'', VNone)])
     = Inr (window_response test_resolved (RawAnnotations VNone) None
              (VDict [(KStr ''mode'', VMode MASK), (KStr ''point_envelope_length'', VNone)]))"
    using mask_response_in_mask_mode
      [where api = test_annotation_api and r = test_resolved
         and style = "VDict [(KStr ''mode'', VMode MASK),
                             (KStr ''point_envelope_length'', VNone)]"
         and a = "RawAnnotations VNone" and affine = None,
       THEN conjunct2, THEN conjunct1]
    by (simp add: annotations_truthy_def)
  show ?thesis using a b c by simp
qed

lemma raw_annotations_without_style:
  assumes "truthy v" and "\<not> truthy annotation_style"
  shows "annotated_window api r (RawAnnotations v) annotation_style hdrs
           = Inl (AttributeError ''region'')"
  using assms
  by (simp add: annotated_window_def prepare_annotations_def crop_affine_def
        annotations_truthy_def)

text \<open>
  C6. The claim gives the window response to every request that is not one of
  annotations with a style of mode \<open>MASK\<close>. A request whose annotations are supplied, as
  the raw list of one annotation, with an empty style or with the style \<open>None\<close> gets no
  response at all, whatever the image and the functions called are: the style being
  false, line 192 leaves the raw list unparsed; line 209 finds the list true and line 210
  reads its attribute \<open>region\<close>, which a list does not have. Lines 192 and 212 test the
  style together with the annotations; line 209 does not.
\<close>

theorem annotations_without_style_no_response:
  "annotated_window api r
     (RawAnnotations (VList [VDict [(KStr ''geometry'', VStr ''POINT(10 10)'')]]))
     (VDict []) hdrs
     = Inl (AttributeError ''region'')
   \<and> annotated_window api r
     (RawAnnotations (VList [VDict [(KStr ''geometry'', VStr ''POINT(10 10)'')]]))
     VNone hdrs
     = Inl (AttributeError ''region'')"
  by (simp add: annotated_window_def prepare_annotations_def crop_affine_def
        annotations_truthy_def)

section \<open>A complete request\<close>

text \<open>
  The model run on a whole request: the tile of index 5 of the test image, all channels
  merged by the default reduction, a maximum intensity broadcast to the three channels,
  no annotation.
\<close>

lemma show_window_example:
  "show_window_with_body test_files (\<lambda>_. Some ()) test_geometry test_dimensions
     test_processing test_annotation_api ''slide.tif'' test_request test_headers test_config
   = Inr (HttpResponse
       (WindowResponse () [0, 1, 2] [2] [0] (RegionObj (Region 256 256 256 256)) (VStr ''PNG'')
          256 256 (Some ADD) None None [VInt 1, VInt 1, VInt 1] []
          [VStr ''DEFAULT'', VStr ''DEFAULT'', VStr ''DEFAULT'']
          [VInt 0, VInt 0, VInt 0] [VInt 10, VInt 10, VInt 10] False (VInt 8) VNone VNone
          (RawAnnotations VNone) None VNone)
       (VStr ''image/png'') (256, 256) (256, 256))"
  by (simp add: show_window_with_body_def show_window_def imagepath_parameter_def
        test_files_def check_representation_existence_def resolve_region_def getitem_def
        contains_def reference_tier_def test_geometry_def test_request_def test_headers_def
        test_config_def resolve_dimensions_def test_dimensions_def ensure_list_def
        check_reduction_validity_def channel_parameters_def test_processing_def
        parse_intensity_bounds_def parse_colormap_ids_def parse_gammas_def broadcast_def
        annotated_window_def prepare_annotations_def crop_affine_def annotations_truthy_def
        make_window_def window_response_def test_annotation_api_def)

text \<open>
  The same request with one raw annotation and no style: every step up to the
  annotations passes and the failure of line 210 is the result of the endpoint.
\<close>

lemma show_window_annotations_without_style:
  "show_window_with_body test_files (\<lambda>_. Some ()) test_geometry test_dimensions
     test_processing test_annotation_api ''slide.tif''
     (test_request\<lparr>q_annotations :=
        RawAnnotations (VList [VDict [(KStr ''geometry'', VStr ''POINT(10 10)'')]])\<rparr>)
     test_headers test_config
   = Inl (AttributeError ''region'')"
  by (simp add: show_window_with_body_def show_window_def imagepath_parameter_def
        test_files_def check_representation_existence_def resolve_region_def getitem_def
        contains_def reference_tier_def test_geometry_def test_request_def test_headers_def
        test_config_def resolve_dimensions_def test_dimensions_def ensure_list_def
        check_reduction_validity_def channel_parameters_def test_processing_def
        parse_intensity_bounds_def parse_colormap_ids_def parse_gammas_def broadcast_def
        annotated_window_def prepare_annotations_def crop_affine_def annotations_truthy_def
        test_annotation_api_def)

end
